theory Spec2Isabelle
  imports Complex_Main "HOL-Library.Word" "HOL-Library.Sublist" "HOL-Library.Multiset"
begin

section \<open>ScreenSift: classification-to-storage mapping and retention model\<close>

text \<open>
  A shallow embedding of the request handlers of \<^verbatim>\<open>src/index.ts\<close> (the multi-label
  variant, whose judgement carries a list \<^verbatim>\<open>categories\<close>) and of the second variant of
  the same file (the single-label variant, whose judgement carries one \<^verbatim>\<open>category\<close>
  and which adds the \<^verbatim>\<open>POST /analyze\<close> endpoint), over the tables of
  \<^verbatim>\<open>src/db/schema.ts\<close>.

  The external collaborators are modelled as follows.
  \<^item> The blob store (R2) is a map from keys to stored objects; \<^verbatim>\<open>put\<close> overwrites,
    \<^verbatim>\<open>delete\<close> of an absent key does nothing, \<^verbatim>\<open>get\<close> of an absent key is null.
  \<^item> Each table is the list of its rows in insertion order. The constraints of the
    schema are part of the model: primary key and unique index of \<^verbatim>\<open>screenshots\<close>
    (an insert that violates one throws), \<^verbatim>\<open>AUTOINCREMENT\<close> ids, and the
    \<^verbatim>\<open>ON DELETE cascade\<close> foreign keys. Apart from these, storage calls succeed.
  \<^item> The classifier call \<^verbatim>\<open>generateObject\<close> is a parameter: a function from the image
    bytes to \<open>Some\<close> judgement, or \<open>None\<close> when the call throws.
  \<^item> Clock readings and random UUIDs are parameters of each request (record \<open>env\<close>).
  \<^item> A ghost field \<open>trace\<close> records every storage and classifier call in the order
    in which the handler awaits them.
  Floating point numbers are modelled as reals, JavaScript strings as HOL strings.
\<close>

subsection \<open>Judgements\<close>

datatype content_type = Ct_dev | Ct_social | Ct_documents | Ct_bugs | Ct_temp | Ct_secrets | Ct_other

datatype folder_category = Dev | Social | Documents | Bugs | Temp | Secrets

datatype retention_policy = Keep | Delete_7_days | Delete_immediately

datatype importance_level = Critical | High | Medium | Low

text \<open>
  The fields shared by both variants of \<^verbatim>\<open>analysisSchema\<close>. The multi-label variant
  enumerates neither \<^verbatim>\<open>"secrets"\<close> nor \<^verbatim>\<open>"Secrets"\<close>; its judgements are judgements of
  this type that do not use these two values.
\<close>

record analysis_base =
  isImportant :: bool
  confidence :: real
  description :: string
  extractedText :: string
  contentType :: content_type
  folderCategory :: folder_category
  retentionPolicy :: retention_policy
  importanceLevel :: importance_level

text \<open>\<^verbatim>\<open>src/index.ts\<close>: \<^verbatim>\<open>categories: z.array(z.string())\<close>.\<close>

record analysis = analysis_base +
  categories :: "string list"

text \<open>The single-label variant: \<^verbatim>\<open>category: z.string()\<close>, and no \<^verbatim>\<open>categories\<close>.\<close>

record analysis_single = analysis_base +
  category :: string

subsection \<open>Tables of \<^verbatim>\<open>db/schema.ts\<close> and the blob store\<close>

type_synonym blob = "8 word list"

text \<open>
  Timestamps are integers (drizzle's \<^verbatim>\<open>mode: "timestamp"\<close>). Nullable columns are
  options. The columns are prefixed by a letter for their table, and the table
  \<^verbatim>\<open>categories\<close> is the field \<open>categoriesT\<close> of the store, since \<open>categories\<close> is the
  field of the judgement.
\<close>

record screenshot =
  s_id :: string
  s_filename :: string
  s_r2Key :: string
  s_fileSize :: nat
  s_mimeType :: string
  s_uploadedAt :: int
  s_analyzedAt :: "int option"
  s_isImportant :: "bool option"
  s_confidenceScore :: "real option"

record category_row =
  c_id :: nat
  c_name :: string
  c_description :: "string option"
  c_createdAt :: int

record screenshot_category =
  l_screenshotId :: string
  l_categoryId :: nat
  l_confidence :: "real option"

record 'j analysis_result =
  r_id :: nat
  r_screenshotId :: string
  r_analysisType :: string
  r_resultData :: 'j
  r_createdAt :: int

record r2_object =
  body :: blob
  o_contentType :: string
  o_cacheControl :: string
  o_customMetadata :: "(string \<times> string) list"

datatype event =
    EvR2Put string
  | EvR2Get string
  | EvR2Delete string
  | EvInsertScreenshot string string
  | EvSelectScreenshot string
  | EvClassify
  | EvUpdateScreenshot string
  | EvInsertAnalysisResult string string
  | EvSelectCategory string
  | EvInsertCategory string
  | EvInsertLink string nat real
  | EvDeleteLinks string
  | EvDeleteScreenshot string
  | EvSelectClutter

text \<open>
  \<open>categorySeq\<close> and \<open>analysisSeq\<close> are the \<^verbatim>\<open>sqlite_sequence\<close> entries of the two
  \<^verbatim>\<open>AUTOINCREMENT\<close> tables: the largest id handed out so far.
\<close>

record 'j store =
  r2 :: "string \<rightharpoonup> r2_object"
  screenshots :: "screenshot list"
  categoriesT :: "category_row list"
  screenshotCategories :: "screenshot_category list"
  analysisResults :: "'j analysis_result list"
  categorySeq :: nat
  analysisSeq :: nat
  trace :: "event list"

text \<open>What a request reads from its environment: the clock and the random source.\<close>

record env =
  year :: int
  month0 :: nat
  keyUuid :: string
  idUuid :: string
  putIso :: string
  uploadedNow :: int
  analyzedNow :: int
  resultNow :: int
  categoryNow :: "nat \<Rightarrow> int"

subsection \<open>\<^verbatim>\<open>generateR2Key\<close>\<close>

text \<open>Decimal rendering of a number, as a template literal or \<^verbatim>\<open>String(n)\<close> does.\<close>

definition digit :: "nat \<Rightarrow> char" where
  "digit d = ''0123456789'' ! d"

function show_nat :: "nat \<Rightarrow> string" where
  "show_nat n = (if n < 10 then [digit n] else show_nat (n div 10) @ [digit (n mod 10)])"
  by pat_completeness auto
termination
  by (relation "measure (\<lambda>n. n)") auto

declare show_nat.simps [simp del]

definition show_int :: "int \<Rightarrow> string" where
  "show_int i = (if i < 0 then CHR ''-'' # show_nat (nat (- i)) else show_nat (nat i))"

text \<open>\<^verbatim>\<open>s.padStart(n, '0')\<close>.\<close>

definition padStart :: "nat \<Rightarrow> char \<Rightarrow> string \<Rightarrow> string" where
  "padStart n c s = replicate (n - length s) c @ s"

text \<open>
  \<^verbatim>\<open>s.split(sep)\<close> for a one-character separator: the pieces between the separators;
  the result is never empty (\<^verbatim>\<open>''.split('.')\<close> is \<^verbatim>\<open>['']\<close>).
\<close>

fun split_acc :: "char \<Rightarrow> string \<Rightarrow> string \<Rightarrow> string list" where
  "split_acc sep cur [] = [rev cur]"
| "split_acc sep cur (x # xs) =
     (if x = sep then rev cur # split_acc sep [] xs else split_acc sep (x # cur) xs)"

definition split :: "char \<Rightarrow> string \<Rightarrow> string list" where
  "split sep s = split_acc sep [] s"

text \<open>\<^verbatim>\<open>xs.pop()\<close>: the last element, \<^verbatim>\<open>undefined\<close> on an empty array.\<close>

definition pop :: "'a list \<Rightarrow> 'a option" where
  "pop xs = (case xs of [] \<Rightarrow> None | _ \<Rightarrow> Some (last xs))"

text \<open>\<^verbatim>\<open>filename.split('.').pop() || 'jpg'\<close>: undefined and the empty string are falsy.\<close>

definition extension :: "string \<Rightarrow> string" where
  "extension filename =
     (case pop (split CHR ''.'' filename) of
        None \<Rightarrow> ''jpg''
      | Some e \<Rightarrow> if e = [] then ''jpg'' else e)"

definition generateR2Key :: "env \<Rightarrow> string \<Rightarrow> string" where
  "generateR2Key e filename =
     ''screenshots/'' @ show_int (year e) @ ''/'' @
     padStart 2 CHR ''0'' (show_nat (month0 e + 1)) @ ''/'' @
     keyUuid e @ ''.'' @ extension filename"

subsection \<open>\<^verbatim>\<open>analyzeScreenshot\<close>\<close>

text \<open>
  The \<^verbatim>\<open>catch\<close> branch of \<^verbatim>\<open>src/index.ts\<close>. The conversion of the bytes to base64
  before the \<^verbatim>\<open>try\<close> only prepares the argument of the classifier call.
\<close>

definition fallback :: analysis where
  "fallback =
     \<lparr> isImportant = False, confidence = 0.5, description = ''Analysis failed'',
       extractedText = ''Analysis failed - could not extract text'',
       contentType = Ct_other, folderCategory = Temp,
       retentionPolicy = Delete_immediately, importanceLevel = Low,
       categories = [''uncategorized''] \<rparr>"

definition analyzeScreenshot :: "(blob \<Rightarrow> analysis option) \<Rightarrow> blob \<Rightarrow> analysis" where
  "analyzeScreenshot generateObject imageBuffer =
     (case generateObject imageBuffer of Some obj \<Rightarrow> obj | None \<Rightarrow> fallback)"

text \<open>The same function in the single-label variant.\<close>

definition fallback_single :: analysis_single where
  "fallback_single =
     \<lparr> isImportant = False, confidence = 0.5, description = ''Analysis failed'',
       extractedText = ''Analysis failed - could not extract text'',
       contentType = Ct_other, folderCategory = Temp,
       retentionPolicy = Delete_immediately, importanceLevel = Low,
       category = ''uncategorized'' \<rparr>"

definition analyzeScreenshot_single ::
    "(blob \<Rightarrow> analysis_single option) \<Rightarrow> blob \<Rightarrow> analysis_single" where
  "analyzeScreenshot_single generateObject imageBuffer =
     (case generateObject imageBuffer of Some obj \<Rightarrow> obj | None \<Rightarrow> fallback_single)"

subsection \<open>Storage calls\<close>

definition log :: "event \<Rightarrow> 'j store \<Rightarrow> 'j store" where
  "log ev st = st\<lparr>trace := trace st @ [ev]\<rparr>"

text \<open>\<^verbatim>\<open>R2.put(key, value, options)\<close>, \<^verbatim>\<open>R2.get(key)\<close>, \<^verbatim>\<open>R2.delete(key)\<close>.\<close>

definition r2_put :: "string \<Rightarrow> r2_object \<Rightarrow> 'j store \<Rightarrow> 'j store" where
  "r2_put key obj st = log (EvR2Put key) (st\<lparr>r2 := (r2 st)(key \<mapsto> obj)\<rparr>)"

definition r2_get :: "string \<Rightarrow> 'j store \<Rightarrow> r2_object option \<times> 'j store" where
  "r2_get key st = (r2 st key, log (EvR2Get key) st)"

definition r2_delete :: "string \<Rightarrow> 'j store \<Rightarrow> 'j store" where
  "r2_delete key st = log (EvR2Delete key) (st\<lparr>r2 := (r2 st)(key := None)\<rparr>)"

text \<open>
  \<^verbatim>\<open>db.insert(schema.screenshots).values({filename, r2Key, fileSize, mimeType}).returning()\<close>.
  The id and the upload time come from the \<^verbatim>\<open>$defaultFn\<close>s of the schema, the importance
  flag from \<^verbatim>\<open>.default(false)\<close>. The statement throws when the primary key or the unique
  index on \<^verbatim>\<open>r2_key\<close> is violated; the row is then not inserted.
\<close>

definition insertScreenshot ::
    "env \<Rightarrow> string \<Rightarrow> string \<Rightarrow> nat \<Rightarrow> string \<Rightarrow> 'j store \<Rightarrow> screenshot option \<times> 'j store" where
  "insertScreenshot e filename r2Key fileSize mimeType st =
     (let row = \<lparr> s_id = idUuid e, s_filename = filename, s_r2Key = r2Key,
                   s_fileSize = fileSize, s_mimeType = mimeType,
                   s_uploadedAt = uploadedNow e, s_analyzedAt = None,
                   s_isImportant = Some False, s_confidenceScore = None \<rparr>;
          st1 = log (EvInsertScreenshot (idUuid e) r2Key) st
      in if list_ex (\<lambda>s. s_id s = s_id row \<or> s_r2Key s = s_r2Key row) (screenshots st)
         then (None, st1)
         else (Some row, st1\<lparr>screenshots := screenshots st @ [row]\<rparr>))"

text \<open>\<^verbatim>\<open>db.select().from(schema.screenshots).where(eq(schema.screenshots.id, id))\<close>, first row.\<close>

definition selectScreenshot :: "string \<Rightarrow> 'j store \<Rightarrow> screenshot option \<times> 'j store" where
  "selectScreenshot sid st =
     (find (\<lambda>s. s_id s = sid) (screenshots st), log (EvSelectScreenshot sid) st)"

text \<open>
  \<^verbatim>\<open>db.update(schema.screenshots).set({analyzedAt, isImportant, confidenceScore})
  .where(eq(schema.screenshots.id, id))\<close>.
\<close>

definition updateScreenshot :: "string \<Rightarrow> int \<Rightarrow> bool \<Rightarrow> real \<Rightarrow> 'j store \<Rightarrow> 'j store" where
  "updateScreenshot sid now imp conf st =
     log (EvUpdateScreenshot sid)
       (st\<lparr>screenshots :=
             map (\<lambda>s. if s_id s = sid
                       then s\<lparr>s_analyzedAt := Some now, s_isImportant := Some imp,
                              s_confidenceScore := Some conf\<rparr>
                       else s)
                 (screenshots st)\<rparr>)"

text \<open>\<^verbatim>\<open>db.insert(schema.analysisResults).values({screenshotId, analysisType, resultData})\<close>.\<close>

definition insertAnalysisResult :: "string \<Rightarrow> string \<Rightarrow> 'j \<Rightarrow> int \<Rightarrow> 'j store \<Rightarrow> 'j store" where
  "insertAnalysisResult sid analysisType resultData now st =
     log (EvInsertAnalysisResult sid analysisType)
       (st\<lparr>analysisResults := analysisResults st @
               [\<lparr> r_id = analysisSeq st + 1, r_screenshotId = sid,
                  r_analysisType = analysisType, r_resultData = resultData,
                  r_createdAt = now \<rparr>],
           analysisSeq := analysisSeq st + 1\<rparr>)"

text \<open>\<^verbatim>\<open>db.select().from(schema.categories).where(eq(schema.categories.name, name))\<close>, first row.\<close>

definition selectCategory :: "string \<Rightarrow> 'j store \<Rightarrow> category_row option \<times> 'j store" where
  "selectCategory name st =
     (find (\<lambda>c. c_name c = name) (categoriesT st), log (EvSelectCategory name) st)"

text \<open>\<^verbatim>\<open>db.insert(schema.categories).values({ name }).returning()\<close>.\<close>

definition insertCategory :: "string \<Rightarrow> int \<Rightarrow> 'j store \<Rightarrow> category_row \<times> 'j store" where
  "insertCategory name now st =
     (let row = \<lparr> c_id = categorySeq st + 1, c_name = name, c_description = None,
                   c_createdAt = now \<rparr>
      in (row, log (EvInsertCategory name)
                 (st\<lparr>categoriesT := categoriesT st @ [row],
                     categorySeq := categorySeq st + 1\<rparr>)))"

text \<open>
  The get-or-create of a category, as each handler writes it inline:
  \<^verbatim>\<open>let [category] = await db.select()...; if (!category) { [category] = await db.insert()... }\<close>.
\<close>

definition resolveCategory :: "string \<Rightarrow> int \<Rightarrow> 'j store \<Rightarrow> category_row \<times> 'j store" where
  "resolveCategory name now st =
     (case selectCategory name st of
        (Some cat, st1) \<Rightarrow> (cat, st1)
      | (None, st1) \<Rightarrow> insertCategory name now st1)"

text \<open>\<^verbatim>\<open>db.insert(schema.screenshotCategories).values({screenshotId, categoryId, confidence})\<close>.\<close>

definition insertLink :: "string \<Rightarrow> nat \<Rightarrow> real \<Rightarrow> 'j store \<Rightarrow> 'j store" where
  "insertLink sid cid conf st =
     log (EvInsertLink sid cid conf)
       (st\<lparr>screenshotCategories := screenshotCategories st @
               [\<lparr> l_screenshotId = sid, l_categoryId = cid, l_confidence = Some conf \<rparr>]\<rparr>)"

text \<open>
  \<^verbatim>\<open>db.delete(schema.screenshotCategories).where(eq(schema.screenshotCategories.screenshotId, id))\<close>.
\<close>

definition deleteLinks :: "string \<Rightarrow> 'j store \<Rightarrow> 'j store" where
  "deleteLinks sid st =
     log (EvDeleteLinks sid)
       (st\<lparr>screenshotCategories := filter (\<lambda>l. l_screenshotId l \<noteq> sid) (screenshotCategories st)\<rparr>)"

text \<open>
  \<^verbatim>\<open>db.delete(schema.screenshots).where(eq(schema.screenshots.id, id))\<close>; the foreign keys
  of \<^verbatim>\<open>screenshot_categories\<close> and \<^verbatim>\<open>analysis_results\<close> are \<^verbatim>\<open>onDelete: "cascade"\<close>.
\<close>

definition deleteScreenshot :: "string \<Rightarrow> 'j store \<Rightarrow> 'j store" where
  "deleteScreenshot sid st =
     log (EvDeleteScreenshot sid)
       (st\<lparr>screenshots := filter (\<lambda>s. s_id s \<noteq> sid) (screenshots st),
           screenshotCategories := filter (\<lambda>l. l_screenshotId l \<noteq> sid) (screenshotCategories st),
           analysisResults := filter (\<lambda>r. r_screenshotId r \<noteq> sid) (analysisResults st)\<rparr>)"

text \<open>
  The loop \<^verbatim>\<open>for (const categoryName of analysis.categories)\<close> of the upload and
  reanalyze handlers; \<open>i\<close> counts the iterations (for the clock).
\<close>

fun linkCategories :: "env \<Rightarrow> string \<Rightarrow> real \<Rightarrow> nat \<Rightarrow> string list \<Rightarrow> 'j store \<Rightarrow> 'j store" where
  "linkCategories e sid conf i [] st = st"
| "linkCategories e sid conf i (categoryName # rest) st =
     (case resolveCategory categoryName (categoryNow e i) st of
        (cat, st1) \<Rightarrow>
          linkCategories e sid conf (i + 1) rest (insertLink sid (c_id cat) conf st1))"

subsection \<open>HTTP handlers of \<^verbatim>\<open>src/index.ts\<close>\<close>

text \<open>
  A request body: not a form at all (\<^verbatim>\<open>c.req.formData()\<close> throws), or a form whose
  field \<^verbatim>\<open>file\<close> is absent, a string, or a file.
\<close>

record upload_file =
  f_name :: string
  f_type :: string
  f_bytes :: blob

datatype form_value = FString string | FFile upload_file

datatype request = NotForm | Form "form_value option"

text \<open>The fields of \<^verbatim>\<open>db.select({...})\<close> in the list handler.\<close>

record summary =
  m_id :: string
  m_filename :: string
  m_fileSize :: nat
  m_mimeType :: string
  m_uploadedAt :: int
  m_analyzedAt :: "int option"
  m_isImportant :: "bool option"
  m_confidenceScore :: "real option"

datatype response =
    JsonError string nat
  | UploadCreated string string bool real "string list" string
  | UploadCreatedSingle string string bool real folder_category string
  | Analyzed string bool real folder_category string string content_type retention_policy
      importance_level
  | ReanalysisCompleted bool real "string list"
  | Listing "summary list" "int option" "int option"
  | Deleted

text \<open>The HTTP status of a response.\<close>

fun status :: "response \<Rightarrow> nat" where
  "status (JsonError msg code) = code"
| "status (UploadCreated i f imp conf cats d) = 201"
| "status (UploadCreatedSingle i f imp conf cat d) = 201"
| "status (Analyzed f imp conf cat d t ct rp il) = 200"
| "status (ReanalysisCompleted imp conf cats) = 200"
| "status (Listing rows l off) = 200"
| "status Deleted = 200"

text \<open>\<^verbatim>\<open>app.post("/upload", ...)\<close>.\<close>

definition upload ::
    "(blob \<Rightarrow> analysis option) \<Rightarrow> env \<Rightarrow> request \<Rightarrow> analysis store \<Rightarrow> response \<times> analysis store" where
  "upload generateObject e req st =
     (case req of
        NotForm \<Rightarrow> (JsonError ''Upload failed'' 500, st)
      | Form None \<Rightarrow> (JsonError ''No file provided'' 400, st)
      | Form (Some (FString str)) \<Rightarrow> (JsonError ''No file provided'' 400, st)
      | Form (Some (FFile file)) \<Rightarrow>
          if \<not> prefix ''image/'' (f_type file) then (JsonError ''File must be an image'' 400, st)
          else
            (let r2Key = generateR2Key e (f_name file);
                st1 = r2_put r2Key
                        \<lparr> body = f_bytes file, o_contentType = f_type file,
                          o_cacheControl = ''max-age=86400'',
                          o_customMetadata = [(''originalFilename'', f_name file),
                                              (''uploadedAt'', putIso e)] \<rparr> st
            in (case insertScreenshot e (f_name file) r2Key (length (f_bytes file)) (f_type file) st1 of
                 (None, st2) \<Rightarrow> (JsonError ''Upload failed'' 500, st2)
               | (Some screenshot, st2) \<Rightarrow>
                   let analysis = analyzeScreenshot generateObject (f_bytes file);
                       st3 = log EvClassify st2;
                       st4 = updateScreenshot (s_id screenshot) (analyzedNow e)
                               (isImportant analysis) (confidence analysis) st3;
                       st5 = insertAnalysisResult (s_id screenshot) ''gemini_vision'' analysis
                               (resultNow e) st4;
                       st6 = linkCategories e (s_id screenshot) (confidence analysis) 0
                               (categories analysis) st5
                   in (UploadCreated (s_id screenshot) (s_filename screenshot)
                         (isImportant analysis) (confidence analysis) (categories analysis)
                         (description analysis), st6))))"

text \<open>\<^verbatim>\<open>app.post("/screenshots/:id/reanalyze", ...)\<close>.\<close>

definition reanalyze ::
    "(blob \<Rightarrow> analysis option) \<Rightarrow> env \<Rightarrow> string \<Rightarrow> analysis store \<Rightarrow> response \<times> analysis store" where
  "reanalyze generateObject e sid st =
     (case selectScreenshot sid st of
        (None, st1) \<Rightarrow> (JsonError ''Screenshot not found'' 404, st1)
      | (Some screenshot, st1) \<Rightarrow>
          (case r2_get (s_r2Key screenshot) st1 of
             (None, st2) \<Rightarrow> (JsonError ''File not found in storage'' 404, st2)
           | (Some object, st2) \<Rightarrow>
               let analysis = analyzeScreenshot generateObject (body object);
                   st3 = log EvClassify st2;
                   st4 = updateScreenshot sid (analyzedNow e)
                           (isImportant analysis) (confidence analysis) st3;
                   st5 = insertAnalysisResult sid ''gemini_vision_reanalysis'' analysis
                           (resultNow e) st4;
                   st6 = deleteLinks sid st5;
                   st7 = linkCategories e sid (confidence analysis) 0 (categories analysis) st6
               in (ReanalysisCompleted (isImportant analysis) (confidence analysis)
                     (categories analysis), st7)))"

text \<open>\<^verbatim>\<open>app.delete("/screenshots/:id", ...)\<close>.\<close>

definition deleteHandler :: "string \<Rightarrow> 'j store \<Rightarrow> response \<times> 'j store" where
  "deleteHandler sid st =
     (case selectScreenshot sid st of
        (None, st1) \<Rightarrow> (JsonError ''Screenshot not found'' 404, st1)
      | (Some screenshot, st1) \<Rightarrow>
          (Deleted, deleteScreenshot sid (r2_delete (s_r2Key screenshot) st1)))"

text \<open>
  \<^verbatim>\<open>app.get("/screenshots", ...)\<close>. The query parameters are the raw strings of the
  request (\<open>None\<close> when absent), except \<^verbatim>\<open>limit\<close> and \<^verbatim>\<open>offset\<close>, which are the numbers
  that \<^verbatim>\<open>Number.parseInt\<close> returned: an integer, or \<open>None\<close> for \<^verbatim>\<open>NaN\<close>.
  \<open>toTimestamp\<close> is the stored value of \<^verbatim>\<open>new Date(s)\<close> for a date string that parses.
  \<open>scan\<close> is the order in which the database produces the rows of the \<^verbatim>\<open>where\<close> clause
  before it sorts them; SQL leaves it open.
\<close>

record list_query =
  q_category :: "string option"
  q_important_only :: "string option"
  q_limit :: "int option"
  q_offset :: "int option"
  q_date_from :: "string option"
  q_date_to :: "string option"

text \<open>JavaScript truthiness of an optional string: present and not empty.\<close>

definition truthy :: "string option \<Rightarrow> bool" where
  "truthy v = (case v of None \<Rightarrow> False | Some str \<Rightarrow> str \<noteq> [])"

definition conditions :: "(string \<Rightarrow> int) \<Rightarrow> list_query \<Rightarrow> (screenshot \<Rightarrow> bool) list" where
  "conditions toTimestamp q =
     (if q_important_only q = Some ''true'' then [\<lambda>s. s_isImportant s = Some True] else []) @
     (if truthy (q_date_from q)
      then [\<lambda>s. toTimestamp (the (q_date_from q)) \<le> s_uploadedAt s] else []) @
     (if truthy (q_date_to q)
      then [\<lambda>s. s_uploadedAt s \<le> toTimestamp (the (q_date_to q))] else [])"

text \<open>\<^verbatim>\<open>and(...conditions)\<close> evaluated on a row.\<close>

definition and_all :: "(screenshot \<Rightarrow> bool) list \<Rightarrow> screenshot \<Rightarrow> bool" where
  "and_all conds s = list_all (\<lambda>p. p s) conds"

text \<open>
  \<^verbatim>\<open>.orderBy(desc(schema.screenshots.uploadedAt))\<close>: a sort by upload time, most recent
  first, of the rows as the database produced them. Rows with equal upload time stay in
  that order, so that every order that the clause admits is the result for some \<open>scan\<close>.
\<close>

definition orderByUploadedDesc :: "screenshot list \<Rightarrow> screenshot list" where
  "orderByUploadedDesc rows = sort_key (\<lambda>s. - s_uploadedAt s) rows"

text \<open>A number that SQLite converts to a 64-bit integer without loss.\<close>

definition int64 :: "int \<Rightarrow> bool" where
  "int64 v = (- (2 ^ 63) \<le> v \<and> v < 2 ^ 63)"

text \<open>
  \<^verbatim>\<open>.limit(l).offset(o)\<close>. The query builder writes \<^verbatim>\<open>limit ?\<close> only for a number
  \<^verbatim>\<open>l >= 0\<close> (not for a negative number or \<^verbatim>\<open>NaN\<close>) and \<^verbatim>\<open>offset ?\<close> only for a truthy
  \<^verbatim>\<open>o\<close> (neither 0 nor \<^verbatim>\<open>NaN\<close>). SQLite rejects an \<^verbatim>\<open>OFFSET\<close> without a \<^verbatim>\<open>LIMIT\<close> and
  a limit or offset that is not a 64-bit integer, and it counts a negative offset as 0.
  \<open>None\<close> is the error that the statement throws.
\<close>

definition limitOffset :: "int option \<Rightarrow> int option \<Rightarrow> 'a list \<Rightarrow> 'a list option" where
  "limitOffset l off rows =
     (let limitClause = (case l of None \<Rightarrow> False | Some v \<Rightarrow> 0 \<le> v);
          offsetClause = (case off of None \<Rightarrow> False | Some v \<Rightarrow> v \<noteq> 0)
      in if limitClause
         then (if \<not> int64 (the l) then None
               else if offsetClause
                    then (if \<not> int64 (the off) then None
                          else Some (take (nat (the l)) (drop (nat (the off)) rows)))
                    else Some (take (nat (the l)) rows))
         else if offsetClause then None else Some rows)"

definition summarize :: "screenshot \<Rightarrow> summary" where
  "summarize s =
     \<lparr> m_id = s_id s, m_filename = s_filename s, m_fileSize = s_fileSize s,
       m_mimeType = s_mimeType s, m_uploadedAt = s_uploadedAt s,
       m_analyzedAt = s_analyzedAt s, m_isImportant = s_isImportant s,
       m_confidenceScore = s_confidenceScore s \<rparr>"

text \<open>The two inner joins of the category branch, with its \<^verbatim>\<open>where\<close> clause.\<close>

definition joinCategory :: "string \<Rightarrow> (screenshot \<Rightarrow> bool) list \<Rightarrow> 'j store \<Rightarrow> screenshot list" where
  "joinCategory name conds st =
     [s. s \<leftarrow> screenshots st, l \<leftarrow> screenshotCategories st, s_id s = l_screenshotId l,
         c \<leftarrow> categoriesT st, l_categoryId l = c_id c, c_name c = name \<and> and_all conds s]"

definition selectedRows :: "(string \<Rightarrow> int) \<Rightarrow> list_query \<Rightarrow> 'j store \<Rightarrow> screenshot list" where
  "selectedRows toTimestamp q st =
     (let conds = conditions toTimestamp q in
      if truthy (q_category q) then joinCategory (the (q_category q)) conds st
      else if length conds > 0 then filter (and_all conds) (screenshots st)
      else screenshots st)"

text \<open>The handler: an error of the query is answered by the \<^verbatim>\<open>catch\<close> branch.\<close>

definition listScreenshots ::
    "(string \<Rightarrow> int) \<Rightarrow> (screenshot list \<Rightarrow> screenshot list) \<Rightarrow> list_query \<Rightarrow> 'j store \<Rightarrow>
     response" where
  "listScreenshots toTimestamp scan q st =
     (case limitOffset (q_limit q) (q_offset q)
             (orderByUploadedDesc (scan (selectedRows toTimestamp q st))) of
        None \<Rightarrow> JsonError ''Failed to list screenshots'' 500
      | Some page \<Rightarrow> Listing (map summarize page) (q_limit q) (q_offset q))"

text \<open>
  The filters in the words of the specification: a row satisfies the filters of a query
  when its importance flag is true if \<^verbatim>\<open>important_only=true\<close> is given, its upload time
  is not before the lower date bound and not after the upper date bound if these are
  given, and it has a link to a category of the given name if a category is given.
\<close>

definition satisfiesFilters :: "(string \<Rightarrow> int) \<Rightarrow> list_query \<Rightarrow> 'j store \<Rightarrow> screenshot \<Rightarrow> bool" where
  "satisfiesFilters toTimestamp q st s =
     ((q_important_only q = Some ''true'' \<longrightarrow> s_isImportant s = Some True) \<and>
      (truthy (q_date_from q) \<longrightarrow> toTimestamp (the (q_date_from q)) \<le> s_uploadedAt s) \<and>
      (truthy (q_date_to q) \<longrightarrow> s_uploadedAt s \<le> toTimestamp (the (q_date_to q))) \<and>
      (truthy (q_category q) \<longrightarrow>
         (\<exists>l \<in> set (screenshotCategories st). \<exists>c \<in> set (categoriesT st).
            l_screenshotId l = s_id s \<and> l_categoryId l = c_id c \<and>
            c_name c = the (q_category q))))"

subsection \<open>Tools of \<^verbatim>\<open>createMcpServer\<close> in \<^verbatim>\<open>src/index.ts\<close>\<close>

datatype exn = InvalidCharacterError | SqliteConstraint | TypeError

text \<open>
  The result of a tool, without the rendering of its text: the values that the text
  interpolates, or the exception whose message the \<^verbatim>\<open>catch\<close> branch reports with
  \<^verbatim>\<open>isError: true\<close>.
\<close>

datatype tool_result =
    ToolAnalyzed string bool real "string list" string
  | ToolPreview "(string \<times> real option) list"
  | ToolDeleted nat
  | ToolFailed exn

text \<open>
  The tool \<^verbatim>\<open>analyze_screenshot\<close>. \<open>atob\<close> decodes base64 and is \<open>None\<close> where the
  JavaScript function throws.
\<close>

definition analyze_screenshot_tool ::
    "(string \<Rightarrow> blob option) \<Rightarrow> (blob \<Rightarrow> analysis option) \<Rightarrow> env \<Rightarrow> string \<Rightarrow> string \<Rightarrow>
     analysis store \<Rightarrow> tool_result \<times> analysis store" where
  "analyze_screenshot_tool atob generateObject e imageData filename st =
     (case atob imageData of
        None \<Rightarrow> (ToolFailed InvalidCharacterError, st)
      | Some buffer \<Rightarrow>
          (let r2Key = generateR2Key e filename;
               st1 = r2_put r2Key
                       \<lparr> body = buffer, o_contentType = ''image/jpeg'',
                         o_cacheControl = ''max-age=86400'', o_customMetadata = [] \<rparr> st
           in (case insertScreenshot e filename r2Key (length buffer) ''image/jpeg'' st1 of
                 (None, st2) \<Rightarrow> (ToolFailed SqliteConstraint, st2)
               | (Some screenshot, st2) \<Rightarrow>
                   let analysis = analyzeScreenshot generateObject buffer;
                       st3 = log EvClassify st2;
                       st4 = updateScreenshot (s_id screenshot) (analyzedNow e)
                               (isImportant analysis) (confidence analysis) st3
                   in (ToolAnalyzed (s_id screenshot) (isImportant analysis)
                         (confidence analysis) (categories analysis) (description analysis),
                       st4))))"

text \<open>
  The query of \<^verbatim>\<open>cleanup_clutter\<close>:
  \<^verbatim>\<open>where(and(eq(isImportant, false), gte(confidenceScore, confidenceThreshold)))\<close>.
  A comparison with a null column is not true in SQL.
\<close>

definition isClutter :: "real \<Rightarrow> screenshot \<Rightarrow> bool" where
  "isClutter confidenceThreshold s =
     (s_isImportant s = Some False \<and>
      (case s_confidenceScore s of None \<Rightarrow> False | Some c \<Rightarrow> confidenceThreshold \<le> c))"

definition selectClutter :: "real \<Rightarrow> 'j store \<Rightarrow> screenshot list \<times> 'j store" where
  "selectClutter confidenceThreshold st =
     (filter (isClutter confidenceThreshold) (screenshots st), log EvSelectClutter st)"

text \<open>The loop \<^verbatim>\<open>for (const screenshot of clutterScreenshots)\<close> with its counter.\<close>

fun deleteClutter :: "screenshot list \<Rightarrow> nat \<Rightarrow> 'j store \<Rightarrow> nat \<times> 'j store" where
  "deleteClutter [] deletedCount st = (deletedCount, st)"
| "deleteClutter (s # rest) deletedCount st =
     deleteClutter rest (deletedCount + 1) (deleteScreenshot (s_id s) (r2_delete (s_r2Key s) st))"

definition cleanup_clutter :: "bool \<Rightarrow> real \<Rightarrow> 'j store \<Rightarrow> tool_result \<times> 'j store" where
  "cleanup_clutter dryRun confidenceThreshold st =
     (case selectClutter confidenceThreshold st of
        (clutterScreenshots, st1) \<Rightarrow>
          if dryRun
          then (ToolPreview (map (\<lambda>s. (s_filename s, s_confidenceScore s)) clutterScreenshots), st1)
          else (case deleteClutter clutterScreenshots 0 st1 of
                  (deletedCount, st2) \<Rightarrow> (ToolDeleted deletedCount, st2)))"

subsection \<open>Handlers of the single-label variant\<close>

text \<open>\<^verbatim>\<open>app.post("/analyze", ...)\<close>: no storage call occurs in the handler.\<close>

definition analyzeOnly ::
    "(blob \<Rightarrow> analysis_single option) \<Rightarrow> request \<Rightarrow> 'j store \<Rightarrow> response \<times> 'j store" where
  "analyzeOnly generateObject req st =
     (case req of
        NotForm \<Rightarrow> (JsonError ''Analysis failed'' 500, st)
      | Form None \<Rightarrow> (JsonError ''No file provided'' 400, st)
      | Form (Some (FString str)) \<Rightarrow> (JsonError ''No file provided'' 400, st)
      | Form (Some (FFile file)) \<Rightarrow>
          if \<not> prefix ''image/'' (f_type file) then (JsonError ''File must be an image'' 400, st)
          else
            (let analysis = analyzeScreenshot_single generateObject (f_bytes file)
             in (Analyzed (f_name file) (isImportant analysis) (confidence analysis)
                   (folderCategory analysis) (description analysis) (extractedText analysis)
                   (contentType analysis) (retentionPolicy analysis) (importanceLevel analysis),
                 log EvClassify st)))"

text \<open>The string of a folder category (the values of the enumeration are strings).\<close>

fun folderName :: "folder_category \<Rightarrow> string" where
  "folderName Dev = ''Dev''"
| "folderName Social = ''Social''"
| "folderName Documents = ''Documents''"
| "folderName Bugs = ''Bugs''"
| "folderName Temp = ''Temp''"
| "folderName Secrets = ''Secrets''"

text \<open>
  \<^verbatim>\<open>app.post("/upload", ...)\<close> of the single-label variant: the one category is
  \<^verbatim>\<open>analysis.folderCategory\<close>.
\<close>

definition upload_single ::
    "(blob \<Rightarrow> analysis_single option) \<Rightarrow> env \<Rightarrow> request \<Rightarrow> analysis_single store \<Rightarrow>
     response \<times> analysis_single store" where
  "upload_single generateObject e req st =
     (case req of
        NotForm \<Rightarrow> (JsonError ''Upload failed'' 500, st)
      | Form None \<Rightarrow> (JsonError ''No file provided'' 400, st)
      | Form (Some (FString str)) \<Rightarrow> (JsonError ''No file provided'' 400, st)
      | Form (Some (FFile file)) \<Rightarrow>
          if \<not> prefix ''image/'' (f_type file) then (JsonError ''File must be an image'' 400, st)
          else
            (let r2Key = generateR2Key e (f_name file);
                 st1 = r2_put r2Key
                         \<lparr> body = f_bytes file, o_contentType = f_type file,
                           o_cacheControl = ''max-age=86400'',
                           o_customMetadata = [(''originalFilename'', f_name file),
                                               (''uploadedAt'', putIso e)] \<rparr> st
             in (case insertScreenshot e (f_name file) r2Key (length (f_bytes file)) (f_type file) st1 of
                   (None, st2) \<Rightarrow> (JsonError ''Upload failed'' 500, st2)
                 | (Some screenshot, st2) \<Rightarrow>
                     let analysis = analyzeScreenshot_single generateObject (f_bytes file);
                         st3 = log EvClassify st2;
                         st4 = updateScreenshot (s_id screenshot) (analyzedNow e)
                                 (isImportant analysis) (confidence analysis) st3;
                         st5 = insertAnalysisResult (s_id screenshot) ''gemini_vision'' analysis
                                 (resultNow e) st4;
                         categoryName = folderName (folderCategory analysis)
                     in (case resolveCategory categoryName (categoryNow e 0) st5 of
                           (cat, st6) \<Rightarrow>
                             (UploadCreatedSingle (s_id screenshot) (s_filename screenshot)
                                (isImportant analysis) (confidence analysis)
                                (folderCategory analysis) (description analysis),
                              insertLink (s_id screenshot) (c_id cat) (confidence analysis) st6)))))"

text \<open>
  \<^verbatim>\<open>app.post("/screenshots/:id/reanalyze", ...)\<close> of the single-label variant. Its text
  is that of the multi-label handler, but here the judgement has no property
  \<^verbatim>\<open>categories\<close> (neither \<^verbatim>\<open>analysisSchema\<close> nor the fallback object has one), so
  \<^verbatim>\<open>for (const categoryName of analysis.categories)\<close> iterates \<^verbatim>\<open>undefined\<close> and throws
  a TypeError, which the \<^verbatim>\<open>catch\<close> branch turns into status 500.
\<close>

definition reanalyze_single ::
    "(blob \<Rightarrow> analysis_single option) \<Rightarrow> env \<Rightarrow> string \<Rightarrow> analysis_single store \<Rightarrow>
     response \<times> analysis_single store" where
  "reanalyze_single generateObject e sid st =
     (case selectScreenshot sid st of
        (None, st1) \<Rightarrow> (JsonError ''Screenshot not found'' 404, st1)
      | (Some screenshot, st1) \<Rightarrow>
          (case r2_get (s_r2Key screenshot) st1 of
             (None, st2) \<Rightarrow> (JsonError ''File not found in storage'' 404, st2)
           | (Some object, st2) \<Rightarrow>
               let analysis = analyzeScreenshot_single generateObject (body object);
                   st3 = log EvClassify st2;
                   st4 = updateScreenshot sid (analyzedNow e)
                           (isImportant analysis) (confidence analysis) st3;
                   st5 = insertAnalysisResult sid ''gemini_vision_reanalysis'' analysis
                           (resultNow e) st4;
                   st6 = deleteLinks sid st5
               in (JsonError ''Reanalysis failed'' 500, st6)))"

subsection \<open>Repeated reanalysis\<close>

text \<open>
  A sequence of reanalysis requests for one screenshot, handled one after the other; each
  request has its own classifier outcome and environment.
\<close>

fun reanalyzeTimes ::
    "((blob \<Rightarrow> analysis option) \<times> env) list \<Rightarrow> string \<Rightarrow> analysis store \<Rightarrow>
     response list \<times> analysis store" where
  "reanalyzeTimes [] sid st = ([], st)"
| "reanalyzeTimes ((generateObject, e) # rest) sid st =
     (case reanalyze generateObject e sid st of
        (resp, st1) \<Rightarrow>
          (case reanalyzeTimes rest sid st1 of
             (resps, st2) \<Rightarrow> (resp # resps, st2)))"

text \<open>
  The link rows that reflect a judgement, given the category table: one row per category
  name of the judgement, in order, that points to the category row of that name and
  carries the confidence of the judgement.
\<close>

definition linksOfJudgement :: "string \<Rightarrow> analysis \<Rightarrow> category_row list \<Rightarrow> screenshot_category list" where
  "linksOfJudgement sid a cats =
     map (\<lambda>name. \<lparr> l_screenshotId = sid,
                    l_categoryId = c_id (the (find (\<lambda>c. c_name c = name) cats)),
                    l_confidence = Some (confidence a) \<rparr>)
         (categories a)"

subsection \<open>Steps of the write sequence\<close>

text \<open>
  The number of the step of the upload's write sequence to which a call belongs: the blob
  put (0), the insert of the Screenshot row (1), the classifier call (2), the update of
  the analysis fields (3), the append of the Analysis Result (4), the lookup and the
  insert of the get-or-create of a category (5), the insert of a link row (6). The other
  calls do not occur in an upload.
\<close>

fun step_of :: "event \<Rightarrow> nat" where
  "step_of (EvR2Put k) = 0"
| "step_of (EvInsertScreenshot i k) = 1"
| "step_of EvClassify = 2"
| "step_of (EvUpdateScreenshot i) = 3"
| "step_of (EvInsertAnalysisResult i t) = 4"
| "step_of (EvSelectCategory n) = 5"
| "step_of (EvInsertCategory n) = 5"
| "step_of (EvInsertLink i c conf) = 6"
| "step_of ev = 7"

subsection \<open>Concrete inputs\<close>

text \<open>Requests and stores at which the theorems below are instantiated.\<close>

definition env0 :: env where
  "env0 = \<lparr> year = 2025, month0 = 0, keyUuid = ''k1'', idUuid = ''i1'', putIso = ''t0'',
            uploadedNow = 100, analyzedNow = 101, resultNow = 102, categoryNow = (\<lambda>i. 103) \<rparr>"

definition png0 :: upload_file where
  "png0 = \<lparr> f_name = ''a.png'', f_type = ''image/png'', f_bytes = [1, 2, 3] \<rparr>"

definition empty_store :: "'j store" where
  "empty_store = \<lparr> r2 = Map.empty, screenshots = [], categoriesT = [], screenshotCategories = [],
                    analysisResults = [], categorySeq = 0, analysisSeq = 0, trace = [] \<rparr>"

definition txt0 :: upload_file where
  "txt0 = \<lparr> f_name = ''notes.txt'', f_type = ''text/plain'', f_bytes = [104, 105] \<rparr>"

definition judgement1 :: analysis_single where
  "judgement1 =
     \<lparr> isImportant = True, confidence = 0.9, description = ''A receipt'',
       extractedText = ''TOTAL 12.00'', contentType = Ct_documents, folderCategory = Documents,
       retentionPolicy = Keep, importanceLevel = Critical, category = ''receipts'' \<rparr>"

definition shot :: "string \<Rightarrow> string \<Rightarrow> int \<Rightarrow> bool \<Rightarrow> real \<Rightarrow> screenshot" where
  "shot i k t imp conf =
     \<lparr> s_id = i, s_filename = i @ ''.png'', s_r2Key = k, s_fileSize = 500,
       s_mimeType = ''image/png'', s_uploadedAt = t, s_analyzedAt = Some (t + 1),
       s_isImportant = Some imp, s_confidenceScore = Some conf \<rparr>"

definition blob0 :: r2_object where
  "blob0 = \<lparr> body = [1, 2, 3], o_contentType = ''image/png'',
             o_cacheControl = ''max-age=86400'', o_customMetadata = [] \<rparr>"

definition store1 :: "analysis store" where
  "store1 =
     \<lparr> r2 = [''k2'' \<mapsto> blob0, ''k3'' \<mapsto> blob0, ''k4'' \<mapsto> blob0],
       screenshots = [shot ''s1'' ''k1'' 10 False 0.79, shot ''s2'' ''k2'' 20 False 0.8,
                      shot ''s3'' ''k3'' 30 False 0.95, shot ''s4'' ''k4'' 40 True 0.99],
       categoriesT = [\<lparr> c_id = 1, c_name = ''Dev'', c_description = None, c_createdAt = 5 \<rparr>,
                      \<lparr> c_id = 2, c_name = ''Temp'', c_description = None, c_createdAt = 6 \<rparr>],
       screenshotCategories =
         [\<lparr> l_screenshotId = ''s1'', l_categoryId = 2, l_confidence = Some 0.79 \<rparr>,
          \<lparr> l_screenshotId = ''s2'', l_categoryId = 2, l_confidence = Some 0.8 \<rparr>,
          \<lparr> l_screenshotId = ''s3'', l_categoryId = 2, l_confidence = Some 0.95 \<rparr>,
          \<lparr> l_screenshotId = ''s4'', l_categoryId = 1, l_confidence = Some 0.99 \<rparr>],
       analysisResults =
         [\<lparr> r_id = 1, r_screenshotId = ''s1'', r_analysisType = ''gemini_vision'',
            r_resultData = fallback, r_createdAt = 11 \<rparr>],
       categorySeq = 2, analysisSeq = 1, trace = [] \<rparr>"

definition jpg0 :: upload_file where
  "jpg0 = \<lparr> f_name = ''b.jpg'', f_type = ''image/jpeg'', f_bytes = [7, 8] \<rparr>"

definition judgement2 :: analysis where
  "judgement2 =
     \<lparr> isImportant = True, confidence = 0.9, description = ''A stack trace in a terminal'',
       extractedText = ''TypeError'', contentType = Ct_bugs, folderCategory = Bugs,
       retentionPolicy = Keep, importanceLevel = High, categories = [''Dev'', ''Bugs''] \<rparr>"

definition classifier2 :: "blob \<Rightarrow> analysis option" where
  "classifier2 b = Some judgement2"

definition classifier_down :: "blob \<Rightarrow> analysis option" where
  "classifier_down b = None"

text \<open>The base64 text \<^verbatim>\<open>Bwg=\<close> decodes to the two bytes of \<open>jpg0\<close>.\<close>

definition atob0 :: "string \<Rightarrow> blob option" where
  "atob0 s = (if s = ''Bwg='' then Some [7, 8] else None)"

definition toTimestamp0 :: "string \<Rightarrow> int" where
  "toTimestamp0 s =
     (if s = ''2025-01-01'' then 10 else if s = ''2025-06-30'' then 30
      else if s = ''2025-12-31'' then 40 else 0)"

text \<open>The database produces the rows in table order.\<close>

definition tableOrder :: "screenshot list \<Rightarrow> screenshot list" where
  "tableOrder rows = rows"

definition query_all :: list_query where
  "query_all = \<lparr> q_category = Some ''Dev'', q_important_only = Some ''true'',
                  q_limit = Some 50, q_offset = Some 0, q_date_from = Some ''2025-01-01'',
                  q_date_to = Some ''2025-12-31'' \<rparr>"

definition query_temp :: list_query where
  "query_temp = \<lparr> q_category = Some ''Temp'', q_important_only = None, q_limit = Some 50,
                   q_offset = Some 0, q_date_from = None, q_date_to = None \<rparr>"

definition query_dates :: list_query where
  "query_dates = \<lparr> q_category = None, q_important_only = None, q_limit = Some (- 1),
                    q_offset = Some 0, q_date_from = Some ''2025-01-01'',
                    q_date_to = Some ''2025-06-30'' \<rparr>"

definition query_bad_page :: list_query where
  "query_bad_page = \<lparr> q_category = None, q_important_only = None, q_limit = Some (- 1),
                       q_offset = Some 2, q_date_from = None, q_date_to = None \<rparr>"

definition store_single :: "analysis_single store" where
  "store_single =
     \<lparr> r2 = [''k1'' \<mapsto> blob0],
       screenshots = [shot ''s1'' ''k1'' 10 False 0.9],
       categoriesT = [\<lparr> c_id = 1, c_name = ''Temp'', c_description = None, c_createdAt = 5 \<rparr>],
       screenshotCategories =
         [\<lparr> l_screenshotId = ''s1'', l_categoryId = 1, l_confidence = Some 0.9 \<rparr>],
       analysisResults =
         [\<lparr> r_id = 1, r_screenshotId = ''s1'', r_analysisType = ''gemini_vision'',
            r_resultData = fallback_single, r_createdAt = 11 \<rparr>],
       categorySeq = 1, analysisSeq = 1, trace = [] \<rparr>"

definition classifier1 :: "blob \<Rightarrow> analysis_single option" where
  "classifier1 b = Some judgement1"


section \<open>Properties\<close>

subsection \<open>Classifier failure\<close>

text \<open>
  Claim C1. For every image, when the classifier call fails, \<open>analyzeScreenshot\<close>
  returns exactly the fallback judgement: not important, confidence 0.5, category
  \<^verbatim>\<open>"uncategorized"\<close> (the list of the multi-label variant, the single category of the
  single-label variant), folder category \<^verbatim>\<open>Temp\<close>, retention \<^verbatim>\<open>delete_immediately\<close>,
  importance level \<^verbatim>\<open>low\<close>, and the failure marker as extracted text. The failure does
  not reach the caller: the analyze-only endpoint answers with the fallback fields, and
  the upload endpoint of either variant answers 201 with them, unless the insert of the
  row violates a uniqueness constraint, which does not depend on the classifier.
\<close>

theorem analyzeScreenshot_failure_fallback:
  assumes multi: "generateObject (f_bytes file) = None"
    and single: "generateObject1 (f_bytes file) = None"
    and image: "prefix ''image/'' (f_type file)"
  shows "analyzeScreenshot generateObject (f_bytes file) =
           \<lparr> isImportant = False, confidence = 0.5, description = ''Analysis failed'',
             extractedText = ''Analysis failed - could not extract text'',
             contentType = Ct_other, folderCategory = Temp,
             retentionPolicy = Delete_immediately, importanceLevel = Low,
             categories = [''uncategorized''] \<rparr>
       \<and> analyzeScreenshot_single generateObject1 (f_bytes file) =
           \<lparr> isImportant = False, confidence = 0.5, description = ''Analysis failed'',
             extractedText = ''Analysis failed - could not extract text'',
             contentType = Ct_other, folderCategory = Temp,
             retentionPolicy = Delete_immediately, importanceLevel = Low,
             category = ''uncategorized'' \<rparr>
       \<and> fst (analyzeOnly generateObject1 (Form (Some (FFile file))) st1) =
           Analyzed (f_name file) False 0.5 Temp ''Analysis failed''
             ''Analysis failed - could not extract text'' Ct_other Delete_immediately Low
       \<and> fst (upload generateObject e (Form (Some (FFile file))) st) =
           (if list_ex (\<lambda>s. s_id s = idUuid e \<or> s_r2Key s = generateR2Key e (f_name file))
                 (screenshots st)
            then JsonError ''Upload failed'' 500
            else UploadCreated (idUuid e) (f_name file) False 0.5 [''uncategorized'']
                   ''Analysis failed'')
       \<and> fst (upload_single generateObject1 e (Form (Some (FFile file))) st2) =
           (if list_ex (\<lambda>s. s_id s = idUuid e \<or> s_r2Key s = generateR2Key e (f_name file))
                 (screenshots st2)
            then JsonError ''Upload failed'' 500
            else UploadCreatedSingle (idUuid e) (f_name file) False 0.5 Temp
                   ''Analysis failed'')"
proof (intro conjI)
  show "analyzeScreenshot generateObject (f_bytes file) =
           \<lparr> isImportant = False, confidence = 0.5, description = ''Analysis failed'',
             extractedText = ''Analysis failed - could not extract text'',
             contentType = Ct_other, folderCategory = Temp,
             retentionPolicy = Delete_immediately, importanceLevel = Low,
             categories = [''uncategorized''] \<rparr>"
    using multi by (simp add: analyzeScreenshot_def fallback_def)
  show "analyzeScreenshot_single generateObject1 (f_bytes file) =
           \<lparr> isImportant = False, confidence = 0.5, description = ''Analysis failed'',
             extractedText = ''Analysis failed - could not extract text'',
             contentType = Ct_other, folderCategory = Temp,
             retentionPolicy = Delete_immediately, importanceLevel = Low,
             category = ''uncategorized'' \<rparr>"
    using single by (simp add: analyzeScreenshot_single_def fallback_single_def)
  show "fst (analyzeOnly generateObject1 (Form (Some (FFile file))) st1) =
           Analyzed (f_name file) False 0.5 Temp ''Analysis failed''
             ''Analysis failed - could not extract text'' Ct_other Delete_immediately Low"
    using single image
    by (simp add: analyzeOnly_def analyzeScreenshot_single_def fallback_single_def)
  show "fst (upload generateObject e (Form (Some (FFile file))) st) =
           (if list_ex (\<lambda>s. s_id s = idUuid e \<or> s_r2Key s = generateR2Key e (f_name file))
                 (screenshots st)
            then JsonError ''Upload failed'' 500
            else UploadCreated (idUuid e) (f_name file) False 0.5 [''uncategorized'']
                   ''Analysis failed'')"
    using multi image
    by (simp add: upload_def insertScreenshot_def r2_put_def log_def Let_def
        analyzeScreenshot_def fallback_def)
  show "fst (upload_single generateObject1 e (Form (Some (FFile file))) st2) =
           (if list_ex (\<lambda>s. s_id s = idUuid e \<or> s_r2Key s = generateR2Key e (f_name file))
                 (screenshots st2)
            then JsonError ''Upload failed'' 500
            else UploadCreatedSingle (idUuid e) (f_name file) False 0.5 Temp
                   ''Analysis failed'')"
    using single image
    by (simp add: upload_single_def insertScreenshot_def r2_put_def log_def Let_def
        analyzeScreenshot_single_def fallback_single_def split_beta)
qed

theorem analyzeScreenshot_failure_fallback_witness:
  "analyzeScreenshot (\<lambda>b. None) (f_bytes png0) = fallback
   \<and> analyzeScreenshot_single (\<lambda>b. None) (f_bytes png0) = fallback_single
   \<and> status (fst (analyzeOnly (\<lambda>b. None) (Form (Some (FFile png0))) (empty_store :: analysis_single store))) = 200
   \<and> status (fst (upload (\<lambda>b. None) env0 (Form (Some (FFile png0))) empty_store)) = 201
   \<and> status (fst (upload_single (\<lambda>b. None) env0 (Form (Some (FFile png0))) empty_store)) = 201"
proof -
  have img: "prefix ''image/'' (f_type png0)" by (simp add: png0_def)
  have n1: "(\<lambda>b. None :: analysis option) (f_bytes png0) = None" by simp
  have n2: "(\<lambda>b. None :: analysis_single option) (f_bytes png0) = None" by simp
  note th = analyzeScreenshot_failure_fallback [OF n1 n2 img,
      of "empty_store :: analysis_single store" env0 empty_store empty_store]
  from th have a: "analyzeScreenshot (\<lambda>b. None) (f_bytes png0) = fallback"
    by (simp add: fallback_def)
  from th have b: "analyzeScreenshot_single (\<lambda>b. None) (f_bytes png0) = fallback_single"
    by (simp add: fallback_single_def)
  from th have c: "status (fst (analyzeOnly (\<lambda>b. None) (Form (Some (FFile png0))) (empty_store :: analysis_single store))) = 200"
    by simp
  from th have d: "status (fst (upload (\<lambda>b. None) env0 (Form (Some (FFile png0))) empty_store)) = 201"
    by (simp add: empty_store_def)
  from th have f: "status (fst (upload_single (\<lambda>b. None) env0 (Form (Some (FFile png0))) empty_store)) = 201"
    by (simp add: empty_store_def)
  from a b c d f show ?thesis by (intro conjI)
qed

subsection \<open>The analyze-only endpoint\<close>

text \<open>
  Claim C8. A request to the analyze-only endpoint changes no persistent state: the blob
  store, the four tables and the two id sequences are as before, and the only call that
  the handler makes is the classifier call. A form without a file, or with a string in
  place of the file, and a file whose type does not start with \<^verbatim>\<open>image/\<close> are answered
  with status 400; an image is answered with the fields of its judgement.
\<close>

theorem analyzeOnly_no_persistence:
  "(let st' = snd (analyzeOnly generateObject req st) in
      r2 st' = r2 st \<and> screenshots st' = screenshots st \<and> categoriesT st' = categoriesT st \<and>
      screenshotCategories st' = screenshotCategories st \<and>
      analysisResults st' = analysisResults st \<and> categorySeq st' = categorySeq st \<and>
      analysisSeq st' = analysisSeq st \<and>
      (trace st' = trace st \<or> trace st' = trace st @ [EvClassify]))
   \<and> fst (analyzeOnly generateObject (Form None) st) = JsonError ''No file provided'' 400
   \<and> fst (analyzeOnly generateObject (Form (Some (FString str))) st) =
         JsonError ''No file provided'' 400
   \<and> (\<not> prefix ''image/'' (f_type other) \<longrightarrow>
        fst (analyzeOnly generateObject (Form (Some (FFile other))) st) =
          JsonError ''File must be an image'' 400)
   \<and> (prefix ''image/'' (f_type upl) \<longrightarrow>
        fst (analyzeOnly generateObject (Form (Some (FFile upl))) st) =
          (let a = analyzeScreenshot_single generateObject (f_bytes upl) in
           Analyzed (f_name upl) (isImportant a) (confidence a) (folderCategory a)
             (description a) (extractedText a) (contentType a) (retentionPolicy a)
             (importanceLevel a)))"
  by (simp add: analyzeOnly_def log_def Let_def split: request.split option.split form_value.split)

theorem analyzeOnly_no_persistence_witness:
  "snd (analyzeOnly (\<lambda>b. Some judgement1) (Form (Some (FFile png0))) (empty_store :: analysis store)) =
     empty_store \<lparr> trace := [EvClassify] \<rparr>
   \<and> fst (analyzeOnly (\<lambda>b. Some judgement1) (Form (Some (FFile txt0))) (empty_store :: analysis store)) =
       JsonError ''File must be an image'' 400
   \<and> fst (analyzeOnly (\<lambda>b. Some judgement1) (Form (Some (FFile png0))) (empty_store :: analysis store)) =
       Analyzed ''a.png'' True 0.9 Documents ''A receipt'' ''TOTAL 12.00'' Ct_documents Keep Critical"
proof -
  note th = analyzeOnly_no_persistence [where generateObject = "\<lambda>b. Some judgement1"
      and req = "Form (Some (FFile png0))" and st = "empty_store :: analysis store"
      and other = txt0 and upl = png0]
  have bad: "\<not> prefix ''image/'' (f_type txt0)" by (simp add: txt0_def)
  have good: "prefix ''image/'' (f_type png0)" by (simp add: png0_def)
  from th have frame: "let st' = snd (analyzeOnly (\<lambda>b. Some judgement1) (Form (Some (FFile png0))) (empty_store :: analysis store)) in
      r2 st' = r2 (empty_store :: analysis store) \<and> screenshots st' = screenshots (empty_store :: analysis store) \<and> categoriesT st' = categoriesT (empty_store :: analysis store) \<and>
      screenshotCategories st' = screenshotCategories (empty_store :: analysis store) \<and>
      analysisResults st' = analysisResults (empty_store :: analysis store) \<and> categorySeq st' = categorySeq (empty_store :: analysis store) \<and>
      analysisSeq st' = analysisSeq (empty_store :: analysis store) \<and>
      (trace st' = trace (empty_store :: analysis store) \<or> trace st' = trace (empty_store :: analysis store) @ [EvClassify])"
    by blast
  have tr: "trace (snd (analyzeOnly (\<lambda>b. Some judgement1) (Form (Some (FFile png0))) (empty_store :: analysis store))) = [EvClassify]"
    by (simp add: analyzeOnly_def png0_def log_def empty_store_def Let_def)
  from frame tr have a: "snd (analyzeOnly (\<lambda>b. Some judgement1) (Form (Some (FFile png0))) (empty_store :: analysis store)) =
     empty_store \<lparr> trace := [EvClassify] \<rparr>"
    by (simp add: Let_def empty_store_def)
  from th bad have b: "fst (analyzeOnly (\<lambda>b. Some judgement1) (Form (Some (FFile txt0))) (empty_store :: analysis store)) =
       JsonError ''File must be an image'' 400"
    by blast
  from th good have "fst (analyzeOnly (\<lambda>b. Some judgement1) (Form (Some (FFile png0))) (empty_store :: analysis store)) =
          (let a = analyzeScreenshot_single (\<lambda>b. Some judgement1) (f_bytes png0) in
           Analyzed (f_name png0) (isImportant a) (confidence a) (folderCategory a)
             (description a) (extractedText a) (contentType a) (retentionPolicy a)
             (importanceLevel a))"
    by blast
  then have c: "fst (analyzeOnly (\<lambda>b. Some judgement1) (Form (Some (FFile png0))) (empty_store :: analysis store)) =
       Analyzed ''a.png'' True 0.9 Documents ''A receipt'' ''TOTAL 12.00'' Ct_documents Keep Critical"
    by (simp add: analyzeScreenshot_single_def judgement1_def png0_def)
  from a b c show ?thesis by (intro conjI)
qed

subsection \<open>Deletion\<close>

text \<open>
  Claim C10. Deleting a screenshot reports NotFound only when the catalog row is absent.
  When the row exists, the blob delete is issued without looking at the blob store and
  without checking its outcome, the row is removed together with its links and analysis
  results, and the response is the success message: a row whose blob is already missing
  is deleted like any other.
\<close>

theorem delete_succeeds_without_blob:
  "(case find (\<lambda>s. s_id s = sid) (screenshots st) of
      None \<Rightarrow>
        deleteHandler sid st =
          (JsonError ''Screenshot not found'' 404, st\<lparr>trace := trace st @ [EvSelectScreenshot sid]\<rparr>)
    | Some row \<Rightarrow>
        (let st' = snd (deleteHandler sid st) in
           fst (deleteHandler sid st) = Deleted \<and>
           screenshots st' = filter (\<lambda>s. s_id s \<noteq> sid) (screenshots st) \<and>
           screenshotCategories st' =
             filter (\<lambda>l. l_screenshotId l \<noteq> sid) (screenshotCategories st) \<and>
           analysisResults st' = filter (\<lambda>r. r_screenshotId r \<noteq> sid) (analysisResults st) \<and>
           categoriesT st' = categoriesT st \<and>
           r2 st' = (r2 st)(s_r2Key row := None) \<and>
           trace st' = trace st @
             [EvSelectScreenshot sid, EvR2Delete (s_r2Key row), EvDeleteScreenshot sid]))"
  by (simp add: deleteHandler_def selectScreenshot_def r2_delete_def deleteScreenshot_def
      log_def Let_def split: option.split)

theorem delete_succeeds_without_blob_witness:
  "r2 store1 ''k1'' = None
   \<and> fst (deleteHandler ''s1'' store1) = Deleted
   \<and> map s_id (screenshots (snd (deleteHandler ''s1'' store1))) = [''s2'', ''s3'', ''s4'']
   \<and> map l_screenshotId (screenshotCategories (snd (deleteHandler ''s1'' store1))) =
       [''s2'', ''s3'', ''s4'']
   \<and> analysisResults (snd (deleteHandler ''s1'' store1)) = []
   \<and> status (fst (deleteHandler ''s9'' store1)) = 404"
proof -
  have row: "find (\<lambda>s. s_id s = ''s1'') (screenshots store1) = Some (shot ''s1'' ''k1'' 10 False 0.79)"
    by (simp add: store1_def shot_def)
  have norow: "find (\<lambda>s. s_id s = ''s9'') (screenshots store1) = None"
    by (simp add: store1_def shot_def)
  have a: "r2 store1 ''k1'' = None" by (simp add: store1_def)
  from delete_succeeds_without_blob [of "''s1''" store1] row
  have ok: "let st' = snd (deleteHandler ''s1'' store1) in
           fst (deleteHandler ''s1'' store1) = Deleted \<and>
           screenshots st' = filter (\<lambda>s. s_id s \<noteq> ''s1'') (screenshots store1) \<and>
           screenshotCategories st' =
             filter (\<lambda>l. l_screenshotId l \<noteq> ''s1'') (screenshotCategories store1) \<and>
           analysisResults st' = filter (\<lambda>r. r_screenshotId r \<noteq> ''s1'') (analysisResults store1) \<and>
           categoriesT st' = categoriesT store1 \<and>
           r2 st' = (r2 store1)(s_r2Key (shot ''s1'' ''k1'' 10 False 0.79) := None) \<and>
           trace st' = trace store1 @
             [EvSelectScreenshot ''s1'', EvR2Delete (s_r2Key (shot ''s1'' ''k1'' 10 False 0.79)), EvDeleteScreenshot ''s1'']"
    by simp
  from ok have b: "fst (deleteHandler ''s1'' store1) = Deleted" by (simp add: Let_def)
  from ok have c: "map s_id (screenshots (snd (deleteHandler ''s1'' store1))) = [''s2'', ''s3'', ''s4'']"
    by (simp add: Let_def store1_def shot_def)
  from ok have d: "map l_screenshotId (screenshotCategories (snd (deleteHandler ''s1'' store1))) =
       [''s2'', ''s3'', ''s4'']"
    by (simp add: Let_def store1_def)
  from ok have e: "analysisResults (snd (deleteHandler ''s1'' store1)) = []"
    by (simp add: Let_def store1_def)
  from delete_succeeds_without_blob [of "''s9''" store1] norow
  have f: "status (fst (deleteHandler ''s9'' store1)) = 404" by simp
  from a b c d e f show ?thesis by (intro conjI)
qed

subsection \<open>Cleanup\<close>

text \<open>The effect of the deletion loop on each part of the storage.\<close>

lemma deleteClutter_count: "fst (deleteClutter cs n st) = n + length cs"
  by (induction cs arbitrary: n st) simp_all

lemma deleteClutter_screenshots:
  "screenshots (snd (deleteClutter cs n st)) =
     filter (\<lambda>s. s_id s \<notin> s_id ` set cs) (screenshots st)"
  by (induction cs arbitrary: n st)
     (auto simp: deleteScreenshot_def r2_delete_def log_def intro: filter_cong)

lemma deleteClutter_links:
  "screenshotCategories (snd (deleteClutter cs n st)) =
     filter (\<lambda>l. l_screenshotId l \<notin> s_id ` set cs) (screenshotCategories st)"
  by (induction cs arbitrary: n st)
     (auto simp: deleteScreenshot_def r2_delete_def log_def intro: filter_cong)

lemma deleteClutter_results:
  "analysisResults (snd (deleteClutter cs n st)) =
     filter (\<lambda>r. r_screenshotId r \<notin> s_id ` set cs) (analysisResults st)"
  by (induction cs arbitrary: n st)
     (auto simp: deleteScreenshot_def r2_delete_def log_def intro: filter_cong)

lemma deleteClutter_r2:
  "r2 (snd (deleteClutter cs n st)) k = (if k \<in> s_r2Key ` set cs then None else r2 st k)"
  by (induction cs arbitrary: n st) (auto simp: deleteScreenshot_def r2_delete_def log_def)

lemma deleteClutter_categories:
  "categoriesT (snd (deleteClutter cs n st)) = categoriesT st"
  by (induction cs arbitrary: n st) (auto simp: deleteScreenshot_def r2_delete_def log_def)

text \<open>
  Claim C2. For every stored row and every threshold \<open>t\<close>, the cleanup query returns the
  row if and only if its importance flag is false and its confidence score is at least
  \<open>t\<close>. In dry-run mode the candidates are reported and the storage is as before; in
  execute mode the blob and the catalog row (with its links and analysis results) of each
  candidate are deleted, the other rows stay, and the count of candidates is reported.
\<close>

theorem cleanup_candidates_and_modes:
  "(s \<in> set (fst (selectClutter t st)) \<longleftrightarrow>
      s \<in> set (screenshots st) \<and> s_isImportant s = Some False \<and>
      (\<exists>c. s_confidenceScore s = Some c \<and> t \<le> c))
   \<and> cleanup_clutter True t st =
       (ToolPreview (map (\<lambda>s. (s_filename s, s_confidenceScore s)) (fst (selectClutter t st))),
        st\<lparr>trace := trace st @ [EvSelectClutter]\<rparr>)
   \<and> (let cs = fst (selectClutter t st); st' = snd (cleanup_clutter False t st) in
        fst (cleanup_clutter False t st) = ToolDeleted (length cs) \<and>
        (\<forall>c \<in> set cs. r2 st' (s_r2Key c) = None \<and>
                       \<not> list_ex (\<lambda>s'. s_id s' = s_id c) (screenshots st')) \<and>
        screenshots st' = filter (\<lambda>s. s_id s \<notin> s_id ` set cs) (screenshots st) \<and>
        screenshotCategories st' =
          filter (\<lambda>l. l_screenshotId l \<notin> s_id ` set cs) (screenshotCategories st) \<and>
        analysisResults st' =
          filter (\<lambda>r. r_screenshotId r \<notin> s_id ` set cs) (analysisResults st))"
proof (intro conjI)
  show "s \<in> set (fst (selectClutter t st)) \<longleftrightarrow>
      s \<in> set (screenshots st) \<and> s_isImportant s = Some False \<and>
      (\<exists>c. s_confidenceScore s = Some c \<and> t \<le> c)"
    by (auto simp: selectClutter_def isClutter_def split: option.splits)
  show "cleanup_clutter True t st =
       (ToolPreview (map (\<lambda>s. (s_filename s, s_confidenceScore s)) (fst (selectClutter t st))),
        st\<lparr>trace := trace st @ [EvSelectClutter]\<rparr>)"
    by (simp add: cleanup_clutter_def selectClutter_def log_def)
  have run: "cleanup_clutter False t st =
      (ToolDeleted (length (fst (selectClutter t st))),
       snd (deleteClutter (fst (selectClutter t st)) 0 (log EvSelectClutter st)))"
    by (simp add: cleanup_clutter_def selectClutter_def deleteClutter_count split_beta)
  show "let cs = fst (selectClutter t st); st' = snd (cleanup_clutter False t st) in
        fst (cleanup_clutter False t st) = ToolDeleted (length cs) \<and>
        (\<forall>c \<in> set cs. r2 st' (s_r2Key c) = None \<and>
                       \<not> list_ex (\<lambda>s'. s_id s' = s_id c) (screenshots st')) \<and>
        screenshots st' = filter (\<lambda>s. s_id s \<notin> s_id ` set cs) (screenshots st) \<and>
        screenshotCategories st' =
          filter (\<lambda>l. l_screenshotId l \<notin> s_id ` set cs) (screenshotCategories st) \<and>
        analysisResults st' =
          filter (\<lambda>r. r_screenshotId r \<notin> s_id ` set cs) (analysisResults st)"
    unfolding Let_def run fst_conv snd_conv
    by (auto simp: deleteClutter_screenshots deleteClutter_links deleteClutter_results
        deleteClutter_r2 log_def list_ex_iff)
qed

theorem cleanup_candidates_and_modes_witness:
  "shot ''s1'' ''k1'' 10 False 0.79 \<notin> set (fst (selectClutter 0.8 store1))
   \<and> shot ''s2'' ''k2'' 20 False 0.8 \<in> set (fst (selectClutter 0.8 store1))
   \<and> shot ''s3'' ''k3'' 30 False 0.95 \<in> set (fst (selectClutter 0.8 store1))
   \<and> shot ''s4'' ''k4'' 40 True 0.99 \<notin> set (fst (selectClutter 0.8 store1))
   \<and> screenshots (snd (cleanup_clutter True 0.8 store1)) = screenshots store1
   \<and> r2 (snd (cleanup_clutter True 0.8 store1)) = r2 store1
   \<and> fst (cleanup_clutter False 0.8 store1) = ToolDeleted 2
   \<and> map s_id (screenshots (snd (cleanup_clutter False 0.8 store1))) = [''s1'', ''s4'']
   \<and> r2 (snd (cleanup_clutter False 0.8 store1)) ''k2'' = None
   \<and> r2 (snd (cleanup_clutter False 0.8 store1)) ''k3'' = None"
proof -
  have cs: "fst (selectClutter 0.8 store1) =
      [shot ''s2'' ''k2'' 20 False 0.8, shot ''s3'' ''k3'' 30 False 0.95]"
    by (simp add: selectClutter_def store1_def isClutter_def shot_def)
  from cleanup_candidates_and_modes [THEN conjunct1, of "shot ''s1'' ''k1'' 10 False 0.79" "0.8" store1]
  have a: "shot ''s1'' ''k1'' 10 False 0.79 \<notin> set (fst (selectClutter 0.8 store1))"
    by (simp add: shot_def)
  have b: "shot ''s2'' ''k2'' 20 False 0.8 \<in> set (fst (selectClutter 0.8 store1))"
    by (rule cleanup_candidates_and_modes [THEN conjunct1, THEN iffD2],
        intro conjI exI [of _ "0.8"]) (simp_all add: shot_def store1_def)
  have c: "shot ''s3'' ''k3'' 30 False 0.95 \<in> set (fst (selectClutter 0.8 store1))"
    by (rule cleanup_candidates_and_modes [THEN conjunct1, THEN iffD2],
        intro conjI exI [of _ "0.95"]) (simp_all add: shot_def store1_def)
  from cleanup_candidates_and_modes [THEN conjunct1, of "shot ''s4'' ''k4'' 40 True 0.99" "0.8" store1]
  have d: "shot ''s4'' ''k4'' 40 True 0.99 \<notin> set (fst (selectClutter 0.8 store1))"
    by (simp add: shot_def)
  note th = cleanup_candidates_and_modes [of "shot ''s2'' ''k2'' 20 False 0.8" "0.8" store1]
  from th [THEN conjunct2, THEN conjunct1] have dry: "cleanup_clutter True 0.8 store1 =
       (ToolPreview (map (\<lambda>s. (s_filename s, s_confidenceScore s)) (fst (selectClutter 0.8 store1))),
        store1\<lparr>trace := trace store1 @ [EvSelectClutter]\<rparr>)"
    .
  from dry have e: "screenshots (snd (cleanup_clutter True 0.8 store1)) = screenshots store1"
    by simp
  from dry have f: "r2 (snd (cleanup_clutter True 0.8 store1)) = r2 store1"
    by simp
  from th [THEN conjunct2, THEN conjunct2] have run: "let cs = fst (selectClutter 0.8 store1); st' = snd (cleanup_clutter False 0.8 store1) in
        fst (cleanup_clutter False 0.8 store1) = ToolDeleted (length cs) \<and>
        (\<forall>c \<in> set cs. r2 st' (s_r2Key c) = None \<and>
                       \<not> list_ex (\<lambda>s'. s_id s' = s_id c) (screenshots st')) \<and>
        screenshots st' = filter (\<lambda>s. s_id s \<notin> s_id ` set cs) (screenshots store1) \<and>
        screenshotCategories st' =
          filter (\<lambda>l. l_screenshotId l \<notin> s_id ` set cs) (screenshotCategories store1) \<and>
        analysisResults st' =
          filter (\<lambda>r. r_screenshotId r \<notin> s_id ` set cs) (analysisResults store1)"
    .
  note run' = run [unfolded Let_def cs]
  from run' have g: "fst (cleanup_clutter False 0.8 store1) = ToolDeleted 2"
    by simp
  from run' have h: "map s_id (screenshots (snd (cleanup_clutter False 0.8 store1))) = [''s1'', ''s4'']"
    by (simp add: store1_def shot_def)
  from run' have i: "r2 (snd (cleanup_clutter False 0.8 store1)) ''k2'' = None"
    by (simp add: shot_def)
  from run' have j: "r2 (snd (cleanup_clutter False 0.8 store1)) ''k3'' = None"
    by (simp add: shot_def)
  from a b c d e f g h i j show ?thesis by (intro conjI)
qed

subsection \<open>Category resolution\<close>

lemma find_append_new:
  "find P xs = None \<Longrightarrow> P x \<Longrightarrow> find P (xs @ [x]) = Some x"
  by (induction xs) (auto split: if_splits)

lemma find_Some_mem: "find P xs = Some x \<Longrightarrow> x \<in> set xs \<and> P x"
  by (induction xs) (auto split: if_splits)

lemma resolveCategory_rows:
  "categoriesT (snd (resolveCategory name now st)) =
     (if list_ex (\<lambda>c. c_name c = name) (categoriesT st) then categoriesT st
      else categoriesT st @
           [\<lparr> c_id = categorySeq st + 1, c_name = name, c_description = None,
              c_createdAt = now \<rparr>])"
  by (auto simp: resolveCategory_def selectCategory_def insertCategory_def log_def Let_def
      list_ex_iff find_None_iff split: option.splits dest: find_Some_mem)

lemma resolveCategory_found:
  "find (\<lambda>c. c_name c = name) (categoriesT (snd (resolveCategory name now st))) =
     Some (fst (resolveCategory name now st))"
  by (auto simp: resolveCategory_def selectCategory_def insertCategory_def log_def Let_def
      find_append_new split: option.splits)

lemma resolveCategory_name: "c_name (fst (resolveCategory name now st)) = name"
  by (auto simp: resolveCategory_def selectCategory_def insertCategory_def log_def Let_def
      split: option.splits dest: find_Some_mem)

text \<open>
  Claim C5. Resolving a category looks the row up by name: when the table has a row of
  that name, the first such row is returned and nothing is inserted; when it has none, a
  row of that name with the next id is inserted and returned. In both cases the returned
  row has the requested name and is the row that a lookup by that name finds afterwards.
  Two resolutions of the same name in sequence return the same row (so the second returns
  the id that the first created), the second adds no row, and a table whose names were
  unique beforehand still has unique names afterwards, with exactly one row of that name,
  the returned one. The other tables and the blob store are as before.
\<close>

theorem resolveCategory_twice:
  assumes first: "resolveCategory name now1 st = (c1, st1)"
    and second: "resolveCategory name now2 st1 = (c2, st2)"
  shows "c2 = c1 \<and> categoriesT st2 = categoriesT st1
       \<and> categoriesT st1 =
           (if list_ex (\<lambda>c. c_name c = name) (categoriesT st) then categoriesT st
            else categoriesT st @ [c1])
       \<and> list_ex (\<lambda>c. c_name c = name) (categoriesT st2)
       \<and> (distinct (map c_name (categoriesT st)) \<longrightarrow>
            distinct (map c_name (categoriesT st2)) \<and>
            length (filter (\<lambda>c. c_name c = name) (categoriesT st2)) = 1)
       \<and> c_name c1 = name
       \<and> c1 \<in> set (categoriesT st1)
       \<and> find (\<lambda>c. c_name c = name) (categoriesT st1) = Some c1
       \<and> (case find (\<lambda>c. c_name c = name) (categoriesT st) of
             Some c \<Rightarrow> c1 = c \<and> categorySeq st1 = categorySeq st
           | None \<Rightarrow>
               c1 = \<lparr> c_id = categorySeq st + 1, c_name = name, c_description = None,
                      c_createdAt = now1 \<rparr> \<and>
               categorySeq st1 = categorySeq st + 1)
       \<and> (distinct (map c_name (categoriesT st)) \<longrightarrow>
            (\<forall>c \<in> set (categoriesT st2). c_name c = name \<longrightarrow> c = c1))
       \<and> screenshots st2 = screenshots st \<and> screenshotCategories st2 = screenshotCategories st
       \<and> analysisResults st2 = analysisResults st \<and> r2 st2 = r2 st
       \<and> categorySeq st2 = categorySeq st1"
proof -
  have found: "find (\<lambda>c. c_name c = name) (categoriesT st1) = Some c1"
    using resolveCategory_found [of name now1 st] first by simp
  from found second have same: "c2 = c1" and rows2: "categoriesT st2 = categoriesT st1"
    and seq2: "categorySeq st2 = categorySeq st1"
    and frame2: "screenshots st2 = screenshots st1"
      "screenshotCategories st2 = screenshotCategories st1"
      "analysisResults st2 = analysisResults st1" "r2 st2 = r2 st1"
    by (auto simp: resolveCategory_def selectCategory_def log_def)
  have frame1: "screenshots st1 = screenshots st"
      "screenshotCategories st1 = screenshotCategories st"
      "analysisResults st1 = analysisResults st" "r2 st1 = r2 st"
    using first
    by (auto simp: resolveCategory_def selectCategory_def insertCategory_def log_def Let_def
        split: option.splits)
  have rows1: "categoriesT st1 =
           (if list_ex (\<lambda>c. c_name c = name) (categoriesT st) then categoriesT st
            else categoriesT st @ [c1])"
    using resolveCategory_rows [of name now1 st] first
    by (auto simp: resolveCategory_def selectCategory_def insertCategory_def log_def Let_def
        list_ex_iff find_None_iff split: option.splits)
  have nm: "c_name c1 = name"
    using resolveCategory_name [of name now1 st] first by simp
  have mem: "c1 \<in> set (categoriesT st1)"
    using found by (auto dest: find_Some_mem)
  have ex: "list_ex (\<lambda>c. c_name c = name) (categoriesT st2)"
    using found rows2 by (auto simp: list_ex_iff dest: find_Some_mem)
  have which: "case find (\<lambda>c. c_name c = name) (categoriesT st) of
             Some c \<Rightarrow> c1 = c \<and> categorySeq st1 = categorySeq st
           | None \<Rightarrow>
               c1 = \<lparr> c_id = categorySeq st + 1, c_name = name, c_description = None,
                      c_createdAt = now1 \<rparr> \<and>
               categorySeq st1 = categorySeq st + 1"
    using first
    by (auto simp: resolveCategory_def selectCategory_def insertCategory_def log_def Let_def
        split: option.splits)
  have dist: "distinct (map c_name (categoriesT st1))" if "distinct (map c_name (categoriesT st))"
    using that rows1 nm by (auto simp: list_ex_iff)
  have one: "length (filter (\<lambda>c. c_name c = name) xs) = 1"
    if "distinct (map c_name xs)" "list_ex (\<lambda>c. c_name c = name) xs" for xs :: "category_row list"
    using that by (induction xs) (auto simp: list_ex_iff filter_empty_conv image_iff)
  have only: "c = c1"
    if "distinct (map c_name (categoriesT st))" "c \<in> set (categoriesT st2)" "c_name c = name" for c
  proof -
    from dist [OF that(1)] have "inj_on c_name (set (categoriesT st1))"
      by (simp add: distinct_map)
    with that(2,3) mem nm rows2 show ?thesis by (auto dest: inj_onD)
  qed
  from same rows2 rows1 ex dist one nm mem found which only frame1 frame2 seq2
  show ?thesis by simp
qed

theorem resolveCategory_twice_witness:
  "fst (resolveCategory ''Bugs'' 51 (snd (resolveCategory ''Bugs'' 50 store1))) =
     fst (resolveCategory ''Bugs'' 50 store1)
   \<and> map c_name (categoriesT (snd (resolveCategory ''Bugs'' 51 (snd (resolveCategory ''Bugs'' 50 store1))))) =
       [''Dev'', ''Temp'', ''Bugs'']
   \<and> length (filter (\<lambda>c. c_name c = ''Bugs'')
        (categoriesT (snd (resolveCategory ''Bugs'' 51 (snd (resolveCategory ''Bugs'' 50 store1)))))) = 1
   \<and> fst (resolveCategory ''Bugs'' 50 store1) =
       \<lparr> c_id = 3, c_name = ''Bugs'', c_description = None, c_createdAt = 50 \<rparr>
   \<and> fst (resolveCategory ''Dev'' 50 store1) =
       \<lparr> c_id = 1, c_name = ''Dev'', c_description = None, c_createdAt = 5 \<rparr>
   \<and> fst (resolveCategory ''Dev'' 51 (snd (resolveCategory ''Dev'' 50 store1))) =
       \<lparr> c_id = 1, c_name = ''Dev'', c_description = None, c_createdAt = 5 \<rparr>
   \<and> categoriesT (snd (resolveCategory ''Dev'' 51 (snd (resolveCategory ''Dev'' 50 store1)))) =
       categoriesT store1
   \<and> fst (resolveCategory ''Temp'' 50 store1) =
       \<lparr> c_id = 2, c_name = ''Temp'', c_description = None, c_createdAt = 6 \<rparr>"
proof -
  define r1 where "r1 = resolveCategory ''Bugs'' 50 store1"
  define r2' where "r2' = resolveCategory ''Bugs'' 51 (snd r1)"
  have first: "resolveCategory ''Bugs'' 50 store1 = (fst r1, snd r1)" by (simp add: r1_def)
  have second: "resolveCategory ''Bugs'' 51 (snd r1) = (fst r2', snd r2')" by (simp add: r2'_def)
  note th = resolveCategory_twice [OF first second]
  have d: "distinct (map c_name (categoriesT store1))" by (simp add: store1_def)
  have absent: "\<not> list_ex (\<lambda>c. c_name c = ''Bugs'') (categoriesT store1)" by (simp add: store1_def)
  have none: "find (\<lambda>c. c_name c = ''Bugs'') (categoriesT store1) = None"
    by (simp add: store1_def)
  from th have a: "fst r2' = fst r1" by blast
  from th absent have rows: "categoriesT (snd r2') = categoriesT store1 @ [fst r1]" by simp
  from th have nm: "c_name (fst r1) = ''Bugs''" by blast
  from rows nm have b: "map c_name (categoriesT (snd r2')) = [''Dev'', ''Temp'', ''Bugs'']"
    by (simp add: store1_def)
  from th d have c: "length (filter (\<lambda>c. c_name c = ''Bugs'') (categoriesT (snd r2'))) = 1"
    by blast
  from th none have new: "fst r1 =
       \<lparr> c_id = 3, c_name = ''Bugs'', c_description = None, c_createdAt = 50 \<rparr>"
    by (simp add: store1_def)
  define d1 where "d1 = resolveCategory ''Dev'' 50 store1"
  define d2 where "d2 = resolveCategory ''Dev'' 51 (snd d1)"
  have dfirst: "resolveCategory ''Dev'' 50 store1 = (fst d1, snd d1)" by (simp add: d1_def)
  have dsecond: "resolveCategory ''Dev'' 51 (snd d1) = (fst d2, snd d2)" by (simp add: d2_def)
  note thd = resolveCategory_twice [OF dfirst dsecond]
  have some: "find (\<lambda>c. c_name c = ''Dev'') (categoriesT store1) =
      Some \<lparr> c_id = 1, c_name = ''Dev'', c_description = None, c_createdAt = 5 \<rparr>"
    by (simp add: store1_def)
  have present: "list_ex (\<lambda>c. c_name c = ''Dev'') (categoriesT store1)" by (simp add: store1_def)
  from thd some have e: "fst d1 =
       \<lparr> c_id = 1, c_name = ''Dev'', c_description = None, c_createdAt = 5 \<rparr>"
    by simp
  from thd have "fst d2 = fst d1" by blast
  with e have f: "fst d2 =
       \<lparr> c_id = 1, c_name = ''Dev'', c_description = None, c_createdAt = 5 \<rparr>"
    by simp
  from thd present have g: "categoriesT (snd d2) = categoriesT store1" by simp
  define t1 where "t1 = resolveCategory ''Temp'' 50 store1"
  have tfirst: "resolveCategory ''Temp'' 50 store1 = (fst t1, snd t1)" by (simp add: t1_def)
  have tsecond: "resolveCategory ''Temp'' 51 (snd t1) =
      (fst (resolveCategory ''Temp'' 51 (snd t1)), snd (resolveCategory ''Temp'' 51 (snd t1)))"
    by simp
  have tsome: "find (\<lambda>c. c_name c = ''Temp'') (categoriesT store1) =
      Some \<lparr> c_id = 2, c_name = ''Temp'', c_description = None, c_createdAt = 6 \<rparr>"
    by (simp add: store1_def)
  from resolveCategory_twice [OF tfirst tsecond] tsome have h: "fst t1 =
       \<lparr> c_id = 2, c_name = ''Temp'', c_description = None, c_createdAt = 6 \<rparr>"
    by simp
  from a b c new e f g h show ?thesis unfolding r2'_def r1_def d2_def d1_def t1_def
    by (intro conjI)
qed

subsection \<open>Blob keys\<close>

text \<open>
  The key has the form \<^verbatim>\<open>screenshots/{year}/{month}/{uuid}.{ext}\<close> by the definition of
  \<open>generateR2Key\<close>. Two keys whose UUIDs differ are different (a UUID contains no dot),
  and the extension of a filename with a dot is what follows its last dot, or
  \<^verbatim>\<open>jpg\<close> when nothing follows it.
\<close>

lemma split_acc_no_sep: "sep \<notin> set s \<Longrightarrow> split_acc sep cur s = [rev cur @ s]"
  by (induction s arbitrary: cur) auto

lemma split_acc_nonempty: "split_acc sep cur s \<noteq> []"
  by (induction s arbitrary: cur) auto

lemma split_acc_last:
  "last (split_acc sep cur (s @ sep # t)) = last (split_acc sep [] t)"
  by (induction s arbitrary: cur) (auto simp: split_acc_nonempty)

lemma digit_not_slash: "d < 10 \<Longrightarrow> digit d \<noteq> CHR ''/''"
proof -
  assume "d < 10"
  then have "''0123456789'' ! d \<in> set ''0123456789''" by (intro nth_mem) simp
  then show ?thesis unfolding digit_def by auto
qed

lemma show_nat_no_slash: "CHR ''/'' \<notin> set (show_nat n)"
proof (induction n rule: show_nat.induct)
  case (1 n)
  show ?case
  proof (cases "n < 10")
    case True
    then show ?thesis using digit_not_slash [of n] by (subst show_nat.simps) auto
  next
    case False
    have "n mod 10 < 10" by simp
    with False 1 show ?thesis
      using digit_not_slash [of "n mod 10"] by (subst show_nat.simps) auto
  qed
qed

lemma show_int_no_slash: "CHR ''/'' \<notin> set (show_int i)"
  by (simp add: show_int_def show_nat_no_slash)

lemma padStart_no_slash: "CHR ''/'' \<notin> set s \<Longrightarrow> CHR ''/'' \<notin> set (padStart n CHR ''0'' s)"
  by (auto simp: padStart_def)

lemma append_sep_inject:
  "c \<notin> set a \<Longrightarrow> c \<notin> set a' \<Longrightarrow> a @ c # b = a' @ c # b' \<Longrightarrow> a = a' \<and> b = b'"
proof (induction a arbitrary: a')
  case Nil
  then show ?case by (cases a') auto
next
  case (Cons x a)
  then show ?case by (cases a') auto
qed

lemma generateR2Key_distinct:
  assumes u1: "CHR ''.'' \<notin> set (keyUuid e1)" and u2: "CHR ''.'' \<notin> set (keyUuid e2)"
    and ne: "keyUuid e1 \<noteq> keyUuid e2"
  shows "generateR2Key e1 f1 \<noteq> generateR2Key e2 f2"
proof
  assume eq: "generateR2Key e1 f1 = generateR2Key e2 f2"
  let ?y1 = "show_int (year e1)" and ?y2 = "show_int (year e2)"
  let ?m1 = "padStart 2 CHR ''0'' (show_nat (month0 e1 + 1))"
  let ?m2 = "padStart 2 CHR ''0'' (show_nat (month0 e2 + 1))"
  from eq have "?y1 @ CHR ''/'' # (?m1 @ CHR ''/'' # (keyUuid e1 @ CHR ''.'' # extension f1)) =
                ?y2 @ CHR ''/'' # (?m2 @ CHR ''/'' # (keyUuid e2 @ CHR ''.'' # extension f2))"
    by (simp add: generateR2Key_def)
  from append_sep_inject [OF show_int_no_slash show_int_no_slash this]
  have "?m1 @ CHR ''/'' # (keyUuid e1 @ CHR ''.'' # extension f1) =
        ?m2 @ CHR ''/'' # (keyUuid e2 @ CHR ''.'' # extension f2)" by simp
  from append_sep_inject [OF padStart_no_slash [OF show_nat_no_slash]
      padStart_no_slash [OF show_nat_no_slash] this]
  have "keyUuid e1 @ CHR ''.'' # extension f1 = keyUuid e2 @ CHR ''.'' # extension f2" by simp
  from append_sep_inject [OF u1 u2 this] ne show False by simp
qed

lemma pop_nonempty: "xs \<noteq> [] \<Longrightarrow> pop xs = Some (last xs)"
  by (cases xs) (simp_all add: pop_def)

lemma extension_after_last_dot:
  assumes "CHR ''.'' \<notin> set t"
  shows "extension (s @ CHR ''.'' # t) = (if t = [] then ''jpg'' else t)"
proof -
  have "last (split CHR ''.'' (s @ CHR ''.'' # t)) = t"
    using assms by (simp add: split_def split_acc_last split_acc_no_sep)
  then show ?thesis
    by (simp add: extension_def pop_nonempty split_def split_acc_nonempty)
qed

text \<open>
  Claim C9. The claim says that the extension of the key defaults to \<^verbatim>\<open>jpg\<close> when the
  filename has no extension. For a filename without any dot this is not what
  \<^verbatim>\<open>filename.split('.').pop() || 'jpg'\<close> computes: the only piece of the split is the
  filename itself, so the whole filename becomes the extension and the default is not
  taken.
\<close>

theorem extension_without_dot:
  assumes nodot: "CHR ''.'' \<notin> set filename" and nonempty: "filename \<noteq> []"
  shows "extension filename = filename
       \<and> generateR2Key e filename =
           ''screenshots/'' @ show_int (year e) @ ''/'' @
           padStart 2 CHR ''0'' (show_nat (month0 e + 1)) @ ''/'' @
           keyUuid e @ ''.'' @ filename"
  using assms by (simp add: generateR2Key_def extension_def split_def pop_def split_acc_no_sep)

theorem extension_without_dot_witness:
  "extension ''photo'' = ''photo''
   \<and> generateR2Key env0 ''photo'' = ''screenshots/2025/01/k1.photo''"
proof -
  have nodot: "CHR ''.'' \<notin> set ''photo''" by simp
  have nonempty: "''photo'' \<noteq> []" by simp
  note th = extension_without_dot [OF nodot nonempty, of env0]
  from th have a: "extension ''photo'' = ''photo''" by blast
  from th have b: "generateR2Key env0 ''photo'' = ''screenshots/2025/01/k1.photo''"
    by (simp add: env0_def show_int_def show_nat.simps digit_def padStart_def)
  from a b show ?thesis by (intro conjI)
qed

subsection \<open>Order of the writes of an upload\<close>

lemma resolveCategory_trace:
  "trace (snd (resolveCategory name now st)) =
     trace st @ (if list_ex (\<lambda>c. c_name c = name) (categoriesT st)
                 then [EvSelectCategory name]
                 else [EvSelectCategory name, EvInsertCategory name])"
  by (auto simp: resolveCategory_def selectCategory_def insertCategory_def log_def Let_def
      list_ex_iff find_None_iff split: option.splits dest: find_Some_mem)

lemma resolveCategory_frame:
  "screenshots (snd (resolveCategory name now st)) = screenshots st"
  "analysisResults (snd (resolveCategory name now st)) = analysisResults st"
  "screenshotCategories (snd (resolveCategory name now st)) = screenshotCategories st"
  "r2 (snd (resolveCategory name now st)) = r2 st"
  "analysisSeq (snd (resolveCategory name now st)) = analysisSeq st"
  by (auto simp: resolveCategory_def selectCategory_def insertCategory_def log_def Let_def
      split: option.splits)

lemma linkCategories_frame:
  "screenshots (linkCategories e sid conf i cs st) = screenshots st"
  "analysisResults (linkCategories e sid conf i cs st) = analysisResults st"
  "r2 (linkCategories e sid conf i cs st) = r2 st"
  "analysisSeq (linkCategories e sid conf i cs st) = analysisSeq st"
proof (induction cs arbitrary: i st)
  case Nil
  {
    case 1 show ?case by simp
  next
    case 2 show ?case by simp
  next
    case 3 show ?case by simp
  next
    case 4 show ?case by simp
  }
next
  case (Cons c cs)
  {
    case 1 show ?case
      using Cons.IH(1) resolveCategory_frame(1) [of c "categoryNow e i" st]
      by (simp add: split_beta insertLink_def log_def)
  next
    case 2 show ?case
      using Cons.IH(2) resolveCategory_frame(2) [of c "categoryNow e i" st]
      by (simp add: split_beta insertLink_def log_def)
  next
    case 3 show ?case
      using Cons.IH(3) resolveCategory_frame(4) [of c "categoryNow e i" st]
      by (simp add: split_beta insertLink_def log_def)
  next
    case 4 show ?case
      using Cons.IH(4) resolveCategory_frame(5) [of c "categoryNow e i" st]
      by (simp add: split_beta insertLink_def log_def)
  }
qed

lemma linkCategories_trace:
  "\<exists>groups. trace (linkCategories e sid conf i cs st) = trace st @ concat groups \<and>
     list_all2 (\<lambda>name g. \<exists>cid.
         g = [EvSelectCategory name, EvInsertLink sid cid conf] \<or>
         g = [EvSelectCategory name, EvInsertCategory name, EvInsertLink sid cid conf])
       cs groups"
proof (induction cs arbitrary: i st)
  case Nil
  show ?case by (rule exI [of _ "[]"]) simp
next
  case (Cons c cs)
  define r where "r = resolveCategory c (categoryNow e i) st"
  define st2 where "st2 = insertLink sid (c_id (fst r)) conf (snd r)"
  define g where "g = (if list_ex (\<lambda>x. c_name x = c) (categoriesT st)
                       then [EvSelectCategory c]
                       else [EvSelectCategory c, EvInsertCategory c]) @
                      [EvInsertLink sid (c_id (fst r)) conf]"
  have step: "linkCategories e sid conf i (c # cs) st = linkCategories e sid conf (i + 1) cs st2"
    by (simp add: r_def st2_def split_beta)
  have tr2: "trace st2 = trace st @ g"
    using resolveCategory_trace [of c "categoryNow e i" st]
    by (simp add: st2_def r_def g_def insertLink_def log_def)
  from Cons.IH [of "i + 1" st2] obtain groups where
    rest: "trace (linkCategories e sid conf (i + 1) cs st2) = trace st2 @ concat groups"
    and shape: "list_all2 (\<lambda>name g. \<exists>cid.
         g = [EvSelectCategory name, EvInsertLink sid cid conf] \<or>
         g = [EvSelectCategory name, EvInsertCategory name, EvInsertLink sid cid conf])
       cs groups"
    by blast
  have gshape: "\<exists>cid. g = [EvSelectCategory c, EvInsertLink sid cid conf] \<or>
       g = [EvSelectCategory c, EvInsertCategory c, EvInsertLink sid cid conf]"
    by (auto simp: g_def)
  show ?case
    by (rule exI [of _ "g # groups"]) (simp only: step rest tr2, simp add: shape gshape)
qed

text \<open>The definitions that evaluate an upload at a concrete input.\<close>

lemmas run_upload =
  upload_def jpg0_def env0_def empty_store_def judgement2_def analyzeScreenshot_def
  insertScreenshot_def r2_put_def log_def Let_def updateScreenshot_def insertAnalysisResult_def
  resolveCategory_def selectCategory_def insertCategory_def insertLink_def classifier2_def
  classifier_down_def fallback_def generateR2Key_def extension_def split_def pop_def
  show_int_def show_nat.simps digit_def padStart_def

text \<open>
  Claim C4, as amended. In every upload that reaches the classifier, the calls happen in
  this order: the blob put, (1) the insert of the Screenshot row with its storage key,
  (2) the classifier call, (3) the update of the analysis fields, (4) the append of the
  Analysis Result row tagged \<^verbatim>\<open>gemini_vision\<close>; then, for each category name of the
  judgement in turn, (5) its get-or-create followed by (6) its link row with the
  confidence of the judgement. With at most one category no later step precedes an
  earlier one.
\<close>

theorem upload_write_order:
  assumes image: "prefix ''image/'' (f_type upl)"
    and fresh: "\<not> list_ex (\<lambda>s. s_id s = idUuid e \<or> s_r2Key s = generateR2Key e (f_name upl))
                      (screenshots st)"
  shows "\<exists>groups.
      trace (snd (upload generateObject e (Form (Some (FFile upl))) st)) =
        trace st @
        [EvR2Put (generateR2Key e (f_name upl)),
         EvInsertScreenshot (idUuid e) (generateR2Key e (f_name upl)),
         EvClassify,
         EvUpdateScreenshot (idUuid e),
         EvInsertAnalysisResult (idUuid e) ''gemini_vision''] @ concat groups
      \<and> list_all2 (\<lambda>name g. \<exists>cid.
            g = [EvSelectCategory name,
                 EvInsertLink (idUuid e) cid
                   (confidence (analyzeScreenshot generateObject (f_bytes upl)))] \<or>
            g = [EvSelectCategory name, EvInsertCategory name,
                 EvInsertLink (idUuid e) cid
                   (confidence (analyzeScreenshot generateObject (f_bytes upl)))])
          (categories (analyzeScreenshot generateObject (f_bytes upl))) groups
      \<and> (length (categories (analyzeScreenshot generateObject (f_bytes upl))) \<le> 1 \<longrightarrow>
          sorted (map step_of
            ([EvR2Put (generateR2Key e (f_name upl)),
              EvInsertScreenshot (idUuid e) (generateR2Key e (f_name upl)),
              EvClassify,
              EvUpdateScreenshot (idUuid e),
              EvInsertAnalysisResult (idUuid e) ''gemini_vision''] @ concat groups)))"
proof -
  define a where "a = analyzeScreenshot generateObject (f_bytes upl)"
  define key where "key = generateR2Key e (f_name upl)"
  define st5 where "st5 =
     insertAnalysisResult (idUuid e) ''gemini_vision'' a (resultNow e)
       (updateScreenshot (idUuid e) (analyzedNow e) (isImportant a) (confidence a)
         (log EvClassify
           (snd (insertScreenshot e (f_name upl) key (length (f_bytes upl)) (f_type upl)
             (r2_put key
                \<lparr> body = f_bytes upl, o_contentType = f_type upl,
                  o_cacheControl = ''max-age=86400'',
                  o_customMetadata = [(''originalFilename'', f_name upl),
                                      (''uploadedAt'', putIso e)] \<rparr> st)))))"
  have run: "snd (upload generateObject e (Form (Some (FFile upl))) st) =
      linkCategories e (idUuid e) (confidence a) 0 (categories a) st5"
    using image fresh
    by (simp add: upload_def Let_def a_def key_def st5_def insertScreenshot_def r2_put_def log_def)
  have tr5: "trace st5 = trace st @
      [EvR2Put key, EvInsertScreenshot (idUuid e) key, EvClassify,
       EvUpdateScreenshot (idUuid e), EvInsertAnalysisResult (idUuid e) ''gemini_vision'']"
    using fresh
    by (simp add: st5_def key_def insertAnalysisResult_def updateScreenshot_def
        insertScreenshot_def r2_put_def log_def Let_def)
  from linkCategories_trace [of e "idUuid e" "confidence a" 0 "categories a" st5]
  obtain groups where
    tr: "trace (linkCategories e (idUuid e) (confidence a) 0 (categories a) st5) =
           trace st5 @ concat groups"
    and shape: "list_all2 (\<lambda>name g. \<exists>cid.
         g = [EvSelectCategory name, EvInsertLink (idUuid e) cid (confidence a)] \<or>
         g = [EvSelectCategory name, EvInsertCategory name,
              EvInsertLink (idUuid e) cid (confidence a)])
       (categories a) groups"
    by blast
  have srt: "sorted (map step_of
            ([EvR2Put key, EvInsertScreenshot (idUuid e) key, EvClassify,
              EvUpdateScreenshot (idUuid e),
              EvInsertAnalysisResult (idUuid e) ''gemini_vision''] @ concat groups))"
    if "length (categories a) \<le> 1"
  proof (cases "categories a")
    case Nil
    with shape show ?thesis by simp
  next
    case (Cons c cs)
    with that have "cs = []" by simp
    with Cons shape obtain g where "groups = [g]" and
      "\<exists>cid. g = [EvSelectCategory c, EvInsertLink (idUuid e) cid (confidence a)] \<or>
         g = [EvSelectCategory c, EvInsertCategory c,
              EvInsertLink (idUuid e) cid (confidence a)]"
      by (auto simp: list_all2_Cons1)
    then show ?thesis by auto
  qed
  show ?thesis
    apply (rule exI [of _ groups])
    using run tr tr5 shape srt
    apply (simp add: a_def [symmetric] key_def [symmetric])
    done
qed

theorem upload_write_order_witness:
  "prefix ''image/'' (f_type jpg0)
   \<and> take 5 (trace (snd (upload classifier2 env0 (Form (Some (FFile jpg0))) empty_store))) =
       [EvR2Put ''screenshots/2025/01/k1.jpg'',
        EvInsertScreenshot ''i1'' ''screenshots/2025/01/k1.jpg'',
        EvClassify, EvUpdateScreenshot ''i1'', EvInsertAnalysisResult ''i1'' ''gemini_vision'']
   \<and> sorted (map step_of
        (trace (snd (upload classifier_down env0 (Form (Some (FFile jpg0))) empty_store))))"
proof -
  have img: "prefix ''image/'' (f_type jpg0)" by (simp add: jpg0_def)
  have fresh: "\<not> list_ex (\<lambda>s. s_id s = idUuid env0 \<or> s_r2Key s = generateR2Key env0 (f_name jpg0))
                      (screenshots (empty_store :: analysis store))"
    by (simp add: empty_store_def)
  have key: "generateR2Key env0 (f_name jpg0) = ''screenshots/2025/01/k1.jpg''"
    by (simp add: generateR2Key_def extension_def split_def pop_def env0_def jpg0_def
        show_int_def show_nat.simps digit_def padStart_def)
  have one: "length (categories (analyzeScreenshot classifier_down (f_bytes jpg0))) \<le> 1"
    by (simp add: analyzeScreenshot_def classifier_down_def fallback_def)
  from upload_write_order [OF img fresh, of classifier2] obtain groups where
    "trace (snd (upload classifier2 env0 (Form (Some (FFile jpg0))) empty_store)) =
        trace (empty_store :: analysis store) @
        [EvR2Put (generateR2Key env0 (f_name jpg0)),
         EvInsertScreenshot (idUuid env0) (generateR2Key env0 (f_name jpg0)),
         EvClassify,
         EvUpdateScreenshot (idUuid env0),
         EvInsertAnalysisResult (idUuid env0) ''gemini_vision''] @ concat groups
      \<and> list_all2 (\<lambda>name g. \<exists>cid.
            g = [EvSelectCategory name,
                 EvInsertLink (idUuid env0) cid
                   (confidence (analyzeScreenshot classifier2 (f_bytes jpg0)))] \<or>
            g = [EvSelectCategory name, EvInsertCategory name,
                 EvInsertLink (idUuid env0) cid
                   (confidence (analyzeScreenshot classifier2 (f_bytes jpg0)))])
          (categories (analyzeScreenshot classifier2 (f_bytes jpg0))) groups
      \<and> (length (categories (analyzeScreenshot classifier2 (f_bytes jpg0))) \<le> 1 \<longrightarrow>
          sorted (map step_of
            ([EvR2Put (generateR2Key env0 (f_name jpg0)),
              EvInsertScreenshot (idUuid env0) (generateR2Key env0 (f_name jpg0)),
              EvClassify,
              EvUpdateScreenshot (idUuid env0),
              EvInsertAnalysisResult (idUuid env0) ''gemini_vision''] @ concat groups)))"
    ..
  then have a: "take 5 (trace (snd (upload classifier2 env0 (Form (Some (FFile jpg0))) empty_store))) =
       [EvR2Put ''screenshots/2025/01/k1.jpg'',
        EvInsertScreenshot ''i1'' ''screenshots/2025/01/k1.jpg'',
        EvClassify, EvUpdateScreenshot ''i1'', EvInsertAnalysisResult ''i1'' ''gemini_vision'']"
    by (simp add: key) (simp add: empty_store_def env0_def)
  from upload_write_order [OF img fresh, of classifier_down] obtain groups where
    "trace (snd (upload classifier_down env0 (Form (Some (FFile jpg0))) empty_store)) =
        trace (empty_store :: analysis store) @
        [EvR2Put (generateR2Key env0 (f_name jpg0)),
         EvInsertScreenshot (idUuid env0) (generateR2Key env0 (f_name jpg0)),
         EvClassify,
         EvUpdateScreenshot (idUuid env0),
         EvInsertAnalysisResult (idUuid env0) ''gemini_vision''] @ concat groups
      \<and> list_all2 (\<lambda>name g. \<exists>cid.
            g = [EvSelectCategory name,
                 EvInsertLink (idUuid env0) cid
                   (confidence (analyzeScreenshot classifier_down (f_bytes jpg0)))] \<or>
            g = [EvSelectCategory name, EvInsertCategory name,
                 EvInsertLink (idUuid env0) cid
                   (confidence (analyzeScreenshot classifier_down (f_bytes jpg0)))])
          (categories (analyzeScreenshot classifier_down (f_bytes jpg0))) groups
      \<and> (length (categories (analyzeScreenshot classifier_down (f_bytes jpg0))) \<le> 1 \<longrightarrow>
          sorted (map step_of
            ([EvR2Put (generateR2Key env0 (f_name jpg0)),
              EvInsertScreenshot (idUuid env0) (generateR2Key env0 (f_name jpg0)),
              EvClassify,
              EvUpdateScreenshot (idUuid env0),
              EvInsertAnalysisResult (idUuid env0) ''gemini_vision''] @ concat groups)))"
    ..
  with one have b: "sorted (map step_of
        (trace (snd (upload classifier_down env0 (Form (Some (FFile jpg0))) empty_store))))"
    by (simp add: empty_store_def)
  from img a b show ?thesis by (intro conjI)
qed

text \<open>
  As the claim is written, with all get-or-creates (5) before all link rows (6), it fails
  for a judgement with two categories: the link row of the first category is written
  before the second category is resolved.
\<close>

theorem upload_write_order_counterexample:
  "\<not> sorted (map step_of
        (trace (snd (upload classifier2 env0 (Form (Some (FFile jpg0))) empty_store))))"
  by (simp add: run_upload)

subsection \<open>The tool \<^verbatim>\<open>analyze_screenshot\<close> and the upload endpoint\<close>

text \<open>The link rows that the loop over the categories writes.\<close>

lemma find_append_keep: "find P xs = Some x \<Longrightarrow> find P (xs @ ys) = Some x"
  by (induction xs) (auto split: if_splits)

lemma find_map_same_id:
  assumes "\<And>s. s_id (f s) = s_id s"
  shows "find (\<lambda>s. s_id s = sid) (map f xs) = map_option f (find (\<lambda>s. s_id s = sid) xs)"
  using assms by (induction xs) auto

lemma resolveCategory_grows:
  "\<exists>extra. categoriesT (snd (resolveCategory name now st)) = categoriesT st @ extra"
  by (simp add: resolveCategory_rows)

lemma linkCategories_grows:
  "\<exists>extra. categoriesT (linkCategories e sid conf i cs st) = categoriesT st @ extra"
proof (induction cs arbitrary: i st)
  case Nil
  show ?case by simp
next
  case (Cons c cs)
  define st2 where "st2 = insertLink sid (c_id (fst (resolveCategory c (categoryNow e i) st))) conf
                            (snd (resolveCategory c (categoryNow e i) st))"
  have step: "linkCategories e sid conf i (c # cs) st = linkCategories e sid conf (i + 1) cs st2"
    by (simp add: st2_def split_beta)
  obtain x where x: "categoriesT st2 = categoriesT st @ x"
    using resolveCategory_grows [of c "categoryNow e i" st]
    by (auto simp: st2_def insertLink_def log_def)
  from Cons.IH [of "i + 1" st2] obtain y where
    "categoriesT (linkCategories e sid conf (i + 1) cs st2) = categoriesT st2 @ y" by blast
  with x show ?case unfolding step by simp
qed

lemma linkCategories_links:
  "screenshotCategories (linkCategories e sid conf i cs st) =
     screenshotCategories st @
     map (\<lambda>name. \<lparr> l_screenshotId = sid,
                    l_categoryId = c_id (the (find (\<lambda>c. c_name c = name)
                                     (categoriesT (linkCategories e sid conf i cs st)))),
                    l_confidence = Some conf \<rparr>) cs"
proof (induction cs arbitrary: i st)
  case Nil
  show ?case by simp
next
  case (Cons c cs)
  define r where "r = resolveCategory c (categoryNow e i) st"
  define st2 where "st2 = insertLink sid (c_id (fst r)) conf (snd r)"
  define final where "final = linkCategories e sid conf (i + 1) cs st2"
  have step: "linkCategories e sid conf i (c # cs) st = final"
    by (simp add: final_def st2_def r_def split_beta)
  have links2: "screenshotCategories st2 = screenshotCategories st @
      [\<lparr> l_screenshotId = sid, l_categoryId = c_id (fst r), l_confidence = Some conf \<rparr>]"
    by (simp add: st2_def r_def insertLink_def log_def resolveCategory_frame)
  have "find (\<lambda>x. c_name x = c) (categoriesT st2) = Some (fst r)"
    by (simp add: st2_def r_def insertLink_def log_def resolveCategory_found)
  moreover obtain y where "categoriesT final = categoriesT st2 @ y"
    using linkCategories_grows [of e sid conf "i + 1" cs st2] by (auto simp: final_def)
  ultimately have found: "find (\<lambda>x. c_name x = c) (categoriesT final) = Some (fst r)"
    by (simp add: find_append_keep)
  from Cons.IH [of "i + 1" st2] have
    "screenshotCategories final = screenshotCategories st2 @
     map (\<lambda>name. \<lparr> l_screenshotId = sid,
                    l_categoryId = c_id (the (find (\<lambda>c. c_name c = name) (categoriesT final))),
                    l_confidence = Some conf \<rparr>) cs"
    by (simp add: final_def)
  with links2 found show ?case unfolding step by simp
qed

lemma linkCategories_names:
  "list_all (\<lambda>name. list_ex (\<lambda>c. c_name c = name)
                       (categoriesT (linkCategories e sid conf i cs st))) cs"
proof (induction cs arbitrary: i st)
  case Nil
  show ?case by simp
next
  case (Cons c cs)
  define r where "r = resolveCategory c (categoryNow e i) st"
  define st2 where "st2 = insertLink sid (c_id (fst r)) conf (snd r)"
  define final where "final = linkCategories e sid conf (i + 1) cs st2"
  have step: "linkCategories e sid conf i (c # cs) st = final"
    by (simp add: final_def st2_def r_def split_beta)
  have "find (\<lambda>x. c_name x = c) (categoriesT st2) = Some (fst r)"
    by (simp add: st2_def r_def insertLink_def log_def resolveCategory_found)
  moreover obtain y where "categoriesT final = categoriesT st2 @ y"
    using linkCategories_grows [of e sid conf "i + 1" cs st2] by (auto simp: final_def)
  ultimately have "find (\<lambda>x. c_name x = c) (categoriesT final) = Some (fst r)"
    by (simp add: find_append_keep)
  then have here: "list_ex (\<lambda>x. c_name x = c) (categoriesT final)"
    by (auto simp: list_ex_iff dest: find_Some_mem)
  from Cons.IH [of "i + 1" st2] have
    "list_all (\<lambda>name. list_ex (\<lambda>c. c_name c = name) (categoriesT final)) cs"
    by (simp add: final_def)
  with here show ?case unfolding step by simp
qed

text \<open>
  Claim C7. The claim says that the tool \<^verbatim>\<open>analyze_screenshot\<close> performs the same
  persistent write sequence as the upload endpoint (blob put, Screenshot row insert,
  analysis-field update, Analysis Result append, category get-or-create, link-row insert)
  and leaves the same final storage state. The tool does not. For every image that it
  decodes and whose generated id and key are new, its calls are the first four of an
  upload of the same bytes as \<^verbatim>\<open>image/jpeg\<close> (blob put, row insert, classifier call,
  field update), and there it stops: it leaves the same Screenshot table and the same set
  of blob keys as the upload, reports the categories of the judgement in its result, and
  leaves the Analysis Result, Category and link tables as they were. The upload goes on to
  append the Analysis Result row and to write one link row for each category of the
  judgement, each to a category row of that name, so that its Analysis Result table
  always differs from the tool's.
\<close>

theorem tool_performs_first_three_writes:
  assumes decoded: "atob imageData = Some buffer"
    and fresh: "\<not> list_ex (\<lambda>s. s_id s = idUuid e \<or> s_r2Key s = generateR2Key e filename)
                      (screenshots st)"
  shows "(let st' = snd (analyze_screenshot_tool atob generateObject e imageData filename st);
              up = snd (upload generateObject e
                     (Form (Some (FFile \<lparr> f_name = filename, f_type = ''image/jpeg'',
                                           f_bytes = buffer \<rparr>))) st);
              key = generateR2Key e filename;
              a = analyzeScreenshot generateObject buffer
          in trace st' = trace st @
               [EvR2Put key, EvInsertScreenshot (idUuid e) key, EvClassify,
                EvUpdateScreenshot (idUuid e)]
           \<and> take (length (trace st')) (trace up) = trace st'
           \<and> screenshots st' = screenshots up
           \<and> r2 st' = (r2 st)(key \<mapsto> \<lparr> body = buffer, o_contentType = ''image/jpeg'',
                                       o_cacheControl = ''max-age=86400'',
                                       o_customMetadata = [] \<rparr>)
           \<and> dom (r2 st') = dom (r2 up)
           \<and> analysisResults st' = analysisResults st
           \<and> categoriesT st' = categoriesT st
           \<and> screenshotCategories st' = screenshotCategories st
           \<and> length (analysisResults up) = length (analysisResults st) + 1
           \<and> fst (analyze_screenshot_tool atob generateObject e imageData filename st) =
               ToolAnalyzed (idUuid e) (isImportant a) (confidence a) (categories a)
                 (description a)
           \<and> analysisResults up = analysisResults st @
               [\<lparr> r_id = analysisSeq st + 1, r_screenshotId = idUuid e,
                  r_analysisType = ''gemini_vision'', r_resultData = a,
                  r_createdAt = resultNow e \<rparr>]
           \<and> screenshotCategories up =
               screenshotCategories st @ linksOfJudgement (idUuid e) a (categoriesT up)
           \<and> list_all (\<lambda>name. list_ex (\<lambda>c. c_name c = name) (categoriesT up)) (categories a)
           \<and> length (trace st') < length (trace up)
           \<and> analysisResults st' \<noteq> analysisResults up)"
proof -
  define upl where "upl = \<lparr> f_name = filename, f_type = ''image/jpeg'', f_bytes = buffer \<rparr>"
  define a where "a = analyzeScreenshot generateObject buffer"
  define key where "key = generateR2Key e filename"
  define st4 where "st4 = (\<lambda>obj.
       updateScreenshot (idUuid e) (analyzedNow e) (isImportant a) (confidence a)
         (log EvClassify
           (snd (insertScreenshot e filename key (length buffer) ''image/jpeg''
             (r2_put key obj st)))))"
  define toolObj where "toolObj = \<lparr> body = buffer, o_contentType = ''image/jpeg'',
       o_cacheControl = ''max-age=86400'', o_customMetadata = [] \<rparr>"
  define upObj where "upObj = \<lparr> body = buffer, o_contentType = ''image/jpeg'',
       o_cacheControl = ''max-age=86400'',
       o_customMetadata = [(''originalFilename'', filename), (''uploadedAt'', putIso e)] \<rparr>"
  define st5 where "st5 = insertAnalysisResult (idUuid e) ''gemini_vision'' a (resultNow e) (st4 upObj)"
  define tl where "tl = analyze_screenshot_tool atob generateObject e imageData filename st"
  define up where "up = snd (upload generateObject e (Form (Some (FFile upl))) st)"
  have tool: "tl = (ToolAnalyzed (idUuid e) (isImportant a) (confidence a) (categories a)
                      (description a), st4 toolObj)"
    using decoded fresh
    by (simp add: tl_def analyze_screenshot_tool_def Let_def st4_def toolObj_def a_def key_def
        insertScreenshot_def r2_put_def log_def)
  have up: "up = linkCategories e (idUuid e) (confidence a) 0 (categories a) st5"
    using fresh
    by (simp add: up_def upload_def Let_def st5_def st4_def upObj_def a_def key_def upl_def
        insertScreenshot_def r2_put_def log_def)
  have tr4: "trace (st4 obj) = trace st @
      [EvR2Put key, EvInsertScreenshot (idUuid e) key, EvClassify, EvUpdateScreenshot (idUuid e)]"
    for obj
    using fresh
    by (simp add: st4_def key_def updateScreenshot_def insertScreenshot_def r2_put_def log_def Let_def)
  have sc4: "screenshots (st4 obj) = screenshots (st4 obj')" for obj obj'
    by (simp add: st4_def updateScreenshot_def insertScreenshot_def r2_put_def log_def Let_def)
  have r4: "r2 (st4 obj) = (r2 st)(key \<mapsto> obj)" for obj
    by (simp add: st4_def updateScreenshot_def insertScreenshot_def r2_put_def log_def Let_def)
  have others: "analysisResults (st4 obj) = analysisResults st"
    "categoriesT (st4 obj) = categoriesT st"
    "screenshotCategories (st4 obj) = screenshotCategories st"
    "analysisSeq (st4 obj) = analysisSeq st" for obj
    by (simp_all add: st4_def updateScreenshot_def insertScreenshot_def r2_put_def log_def Let_def)
  have five: "screenshots st5 = screenshots (st4 upObj)" "r2 st5 = r2 (st4 upObj)"
    "screenshotCategories st5 = screenshotCategories st"
    "analysisResults st5 = analysisResults st @
               [\<lparr> r_id = analysisSeq st + 1, r_screenshotId = idUuid e,
                  r_analysisType = ''gemini_vision'', r_resultData = a,
                  r_createdAt = resultNow e \<rparr>]"
    "trace st5 = trace (st4 upObj) @ [EvInsertAnalysisResult (idUuid e) ''gemini_vision'']"
    by (simp_all add: st5_def insertAnalysisResult_def log_def others)
  obtain groups where trup: "trace up = trace st5 @ concat groups"
    using linkCategories_trace [of e "idUuid e" "confidence a" 0 "categories a" st5]
    by (auto simp: up)
  have links: "screenshotCategories up =
      screenshotCategories st @ linksOfJudgement (idUuid e) a (categoriesT up)"
    unfolding up linksOfJudgement_def
    by (subst linkCategories_links) (simp add: five)
  have named: "list_all (\<lambda>name. list_ex (\<lambda>c. c_name c = name) (categoriesT up)) (categories a)"
    unfolding up by (rule linkCategories_names)
  have res: "analysisResults up = analysisResults st @
               [\<lparr> r_id = analysisSeq st + 1, r_screenshotId = idUuid e,
                  r_analysisType = ''gemini_vision'', r_resultData = a,
                  r_createdAt = resultNow e \<rparr>]"
    by (simp add: up linkCategories_frame five)
  have t1: "trace (snd tl) = trace st @
               [EvR2Put key, EvInsertScreenshot (idUuid e) key, EvClassify,
                EvUpdateScreenshot (idUuid e)]"
    by (simp add: tool tr4)
  have t2: "take (length (trace (snd tl))) (trace up) = trace (snd tl)"
    by (simp add: tool trup five tr4)
  have t3: "length (trace (snd tl)) < length (trace up)"
    by (simp add: tool trup five tr4)
  have s1: "screenshots (snd tl) = screenshots up"
    by (simp add: tool up linkCategories_frame five sc4 [of toolObj upObj])
  have b1: "r2 (snd tl) = (r2 st)(key \<mapsto> toolObj)"
    by (simp add: tool r4)
  have b2: "dom (r2 (snd tl)) = dom (r2 up)"
    by (simp add: tool up linkCategories_frame five r4)
  have o1: "analysisResults (snd tl) = analysisResults st"
    "categoriesT (snd tl) = categoriesT st"
    "screenshotCategories (snd tl) = screenshotCategories st"
    by (simp_all add: tool others)
  have ne: "analysisResults (snd tl) \<noteq> analysisResults up"
    by (simp add: o1 res)
  have f1: "fst tl = ToolAnalyzed (idUuid e) (isImportant a) (confidence a) (categories a)
                 (description a)"
    by (simp add: tool)
  from t1 t2 t3 s1 b1 b2 o1 ne f1 res links named show ?thesis
    unfolding Let_def upl_def [symmetric] key_def [symmetric] toolObj_def [symmetric]
      a_def [symmetric] tl_def [symmetric] up_def [symmetric]
    by simp
qed

theorem tool_performs_first_three_writes_witness:
  "atob0 ''Bwg='' = Some [7, 8]
   \<and> fst (analyze_screenshot_tool atob0 classifier2 env0 ''Bwg='' ''b.jpg'' empty_store) =
       ToolAnalyzed ''i1'' True 0.9 [''Dev'', ''Bugs''] ''A stack trace in a terminal''
   \<and> trace (snd (analyze_screenshot_tool atob0 classifier2 env0 ''Bwg='' ''b.jpg'' empty_store)) =
       [EvR2Put ''screenshots/2025/01/k1.jpg'',
        EvInsertScreenshot ''i1'' ''screenshots/2025/01/k1.jpg'', EvClassify,
        EvUpdateScreenshot ''i1'']
   \<and> analysisResults (snd (analyze_screenshot_tool atob0 classifier2 env0 ''Bwg='' ''b.jpg'' empty_store)) = []
   \<and> screenshotCategories (snd (analyze_screenshot_tool atob0 classifier2 env0 ''Bwg='' ''b.jpg'' empty_store)) = []
   \<and> categoriesT (snd (analyze_screenshot_tool atob0 classifier2 env0 ''Bwg='' ''b.jpg'' empty_store)) = []
   \<and> screenshots (snd (analyze_screenshot_tool atob0 classifier2 env0 ''Bwg='' ''b.jpg'' empty_store)) =
       screenshots (snd (upload classifier2 env0 (Form (Some (FFile jpg0))) empty_store))
   \<and> length (analysisResults (snd (upload classifier2 env0 (Form (Some (FFile jpg0))) empty_store))) = 1
   \<and> length (screenshotCategories (snd (upload classifier2 env0 (Form (Some (FFile jpg0))) empty_store))) = 2"
proof -
  have decoded: "atob0 ''Bwg='' = Some [7, 8]" by (simp add: atob0_def)
  have fresh: "\<not> list_ex (\<lambda>s. s_id s = idUuid env0 \<or> s_r2Key s = generateR2Key env0 ''b.jpg'')
                      (screenshots (empty_store :: analysis store))"
    by (simp add: empty_store_def)
  have key: "generateR2Key env0 ''b.jpg'' = ''screenshots/2025/01/k1.jpg''"
    by (simp add: generateR2Key_def extension_def split_def pop_def env0_def
        show_int_def show_nat.simps digit_def padStart_def)
  have f: "\<lparr> f_name = ''b.jpg'', f_type = ''image/jpeg'', f_bytes = [7, 8] \<rparr> = jpg0"
    by (simp add: jpg0_def)
  have j: "analyzeScreenshot classifier2 [7, 8] = judgement2"
    by (simp add: analyzeScreenshot_def classifier2_def)
  note th = tool_performs_first_three_writes [where atob = atob0 and imageData = "''Bwg=''"
      and buffer = "[7, 8]" and e = env0 and filename = "''b.jpg''"
      and st = "empty_store :: analysis store" and generateObject = classifier2,
      OF decoded fresh, unfolded Let_def key f j]
  from th have r: "fst (analyze_screenshot_tool atob0 classifier2 env0 ''Bwg='' ''b.jpg'' empty_store) =
       ToolAnalyzed ''i1'' True 0.9 [''Dev'', ''Bugs''] ''A stack trace in a terminal''"
    by (simp add: env0_def judgement2_def)
  from th have a: "trace (snd (analyze_screenshot_tool atob0 classifier2 env0 ''Bwg='' ''b.jpg'' empty_store)) =
       [EvR2Put ''screenshots/2025/01/k1.jpg'',
        EvInsertScreenshot ''i1'' ''screenshots/2025/01/k1.jpg'', EvClassify,
        EvUpdateScreenshot ''i1'']"
    by (simp add: empty_store_def env0_def)
  from th have b: "analysisResults (snd (analyze_screenshot_tool atob0 classifier2 env0 ''Bwg='' ''b.jpg'' empty_store)) = []"
    by (simp add: empty_store_def)
  from th have c: "screenshotCategories (snd (analyze_screenshot_tool atob0 classifier2 env0 ''Bwg='' ''b.jpg'' empty_store)) = []"
    by (simp add: empty_store_def)
  from th have c': "categoriesT (snd (analyze_screenshot_tool atob0 classifier2 env0 ''Bwg='' ''b.jpg'' empty_store)) = []"
    by (simp add: empty_store_def)
  from th have d: "screenshots (snd (analyze_screenshot_tool atob0 classifier2 env0 ''Bwg='' ''b.jpg'' empty_store)) =
       screenshots (snd (upload classifier2 env0 (Form (Some (FFile jpg0))) empty_store))"
    by simp
  from th have g: "length (analysisResults (snd (upload classifier2 env0 (Form (Some (FFile jpg0))) empty_store))) = 1"
    by (simp add: empty_store_def)
  from th have h: "length (screenshotCategories (snd (upload classifier2 env0 (Form (Some (FFile jpg0))) empty_store))) = 2"
    by (simp add: empty_store_def linksOfJudgement_def judgement2_def)
  from decoded r a b c c' d g h show ?thesis by (intro conjI)
qed

text \<open>
  For the same image and a judgement with the categories \<^verbatim>\<open>Dev\<close> and \<^verbatim>\<open>Bugs\<close>, the
  calls and the Analysis Result, Category and link tables after the tool differ from
  those after the upload.
\<close>

theorem tool_and_upload_differ_at_jpg0:
  "trace (snd (analyze_screenshot_tool atob0 classifier2 env0 ''Bwg='' ''b.jpg'' empty_store))
     \<noteq> trace (snd (upload classifier2 env0 (Form (Some (FFile jpg0))) empty_store))
   \<and> analysisResults (snd (analyze_screenshot_tool atob0 classifier2 env0 ''Bwg='' ''b.jpg'' empty_store))
     \<noteq> analysisResults (snd (upload classifier2 env0 (Form (Some (FFile jpg0))) empty_store))
   \<and> categoriesT (snd (analyze_screenshot_tool atob0 classifier2 env0 ''Bwg='' ''b.jpg'' empty_store))
     \<noteq> categoriesT (snd (upload classifier2 env0 (Form (Some (FFile jpg0))) empty_store))
   \<and> screenshotCategories (snd (analyze_screenshot_tool atob0 classifier2 env0 ''Bwg='' ''b.jpg'' empty_store))
     \<noteq> screenshotCategories (snd (upload classifier2 env0 (Form (Some (FFile jpg0))) empty_store))"
  by (simp add: run_upload analyze_screenshot_tool_def atob0_def)

subsection \<open>Listing\<close>

text \<open>The rows of the \<^verbatim>\<open>where\<close> clause, the page, and the order.\<close>

lemma and_all_conditions:
  "and_all (conditions toTimestamp q) s \<longleftrightarrow>
     (q_important_only q = Some ''true'' \<longrightarrow> s_isImportant s = Some True) \<and>
     (truthy (q_date_from q) \<longrightarrow> toTimestamp (the (q_date_from q)) \<le> s_uploadedAt s) \<and>
     (truthy (q_date_to q) \<longrightarrow> s_uploadedAt s \<le> toTimestamp (the (q_date_to q)))"
  by (simp add: and_all_def conditions_def)

lemma joinCategory_iff:
  "s \<in> set (joinCategory name conds st) \<longleftrightarrow>
     s \<in> set (screenshots st) \<and> and_all conds s \<and>
     (\<exists>l \<in> set (screenshotCategories st). \<exists>c \<in> set (categoriesT st).
        l_screenshotId l = s_id s \<and> l_categoryId l = c_id c \<and> c_name c = name)"
  by (auto simp: joinCategory_def)

lemma satisfiesFilters_no_category:
  "\<not> truthy (q_category q) \<Longrightarrow>
     satisfiesFilters toTimestamp q st s = and_all (conditions toTimestamp q) s"
  by (simp add: satisfiesFilters_def and_all_conditions)

lemma selectedRows_no_category:
  assumes "\<not> truthy (q_category q)"
  shows "selectedRows toTimestamp q st =
           filter (satisfiesFilters toTimestamp q st) (screenshots st)"
proof (cases "conditions toTimestamp q")
  case Nil
  then have "satisfiesFilters toTimestamp q st s" for s
    using satisfiesFilters_no_category [OF assms, of toTimestamp st s] by (simp add: and_all_def)
  with Nil assms show ?thesis by (simp add: selectedRows_def)
next
  case (Cons p ps)
  have "filter (and_all (conditions toTimestamp q)) (screenshots st) =
        filter (satisfiesFilters toTimestamp q st) (screenshots st)"
    by (rule filter_cong) (simp_all add: satisfiesFilters_no_category [OF assms])
  with Cons assms show ?thesis by (simp add: selectedRows_def)
qed

lemma selectedRows_iff:
  "s \<in> set (selectedRows toTimestamp q st) \<longleftrightarrow>
     s \<in> set (screenshots st) \<and> satisfiesFilters toTimestamp q st s"
proof (cases "truthy (q_category q)")
  case True
  then show ?thesis
    by (simp add: selectedRows_def joinCategory_iff satisfiesFilters_def and_all_conditions)
next
  case False
  then show ?thesis by (simp add: selectedRows_no_category)
qed

lemma limitOffset_subset: "limitOffset l off rows = Some page \<Longrightarrow> set page \<subseteq> set rows"
  by (auto simp: limitOffset_def Let_def split: if_splits option.splits
      dest: in_set_takeD in_set_dropD)

lemma limitOffset_sorted:
  "limitOffset l off rows = Some page \<Longrightarrow> sorted_wrt R rows \<Longrightarrow> sorted_wrt R page"
  by (auto simp: limitOffset_def Let_def split: if_splits option.splits)

lemma limitOffset_unpaged:
  "(case l of None \<Rightarrow> True | Some v \<Rightarrow> v < 0) \<Longrightarrow>
   (case off of None \<Rightarrow> True | Some v \<Rightarrow> v = 0) \<Longrightarrow> limitOffset l off rows = Some rows"
  by (auto simp: limitOffset_def Let_def split: option.splits)

lemma orderByUploadedDesc_mset: "mset (orderByUploadedDesc rows) = mset rows"
  by (simp add: orderByUploadedDesc_def)

lemma orderByUploadedDesc_sorted:
  "sorted_wrt (\<lambda>a b. s_uploadedAt b \<le> s_uploadedAt a) (orderByUploadedDesc rows)"
proof -
  have "sorted (map (\<lambda>s. - s_uploadedAt s) (orderByUploadedDesc rows))"
    by (simp add: orderByUploadedDesc_def)
  then show ?thesis by (simp add: sorted_map)
qed

text \<open>The definitions that evaluate a listing at a concrete input.\<close>

lemmas run_listing =
  listScreenshots_def selectedRows_def joinCategory_def conditions_def and_all_def truthy_def
  orderByUploadedDesc_def limitOffset_def int64_def store1_def shot_def summarize_def
  toTimestamp0_def tableOrder_def

text \<open>
  Claim C6. For every combination of filters, the rows that the query selects are exactly
  the stored rows that satisfy every active filter: with \<^verbatim>\<open>important_only=true\<close> the
  importance flag is true, a lower and an upper date bound include the bound itself, and
  with a category the row has a link to a category of that name; all active filters are
  conjoined. The response is a page of these rows in the order of their upload time, most
  recent first, or status 500 when the database rejects the limit and offset. Every row
  of a listing is the summary of a stored row that satisfies the filters, and a listing
  without limit and offset holds every such row.
\<close>

theorem listing_filters_and_order:
  assumes perm: "mset (scan (selectedRows toTimestamp q st)) = mset (selectedRows toTimestamp q st)"
  shows "(\<forall>s. s \<in> set (selectedRows toTimestamp q st) \<longleftrightarrow>
              s \<in> set (screenshots st) \<and> satisfiesFilters toTimestamp q st s)
       \<and> (\<not> truthy (q_category q) \<longrightarrow>
            selectedRows toTimestamp q st =
              filter (satisfiesFilters toTimestamp q st) (screenshots st))
       \<and> (\<exists>ordered.
            mset ordered = mset (selectedRows toTimestamp q st) \<and>
            sorted_wrt (\<lambda>a b. s_uploadedAt b \<le> s_uploadedAt a) ordered \<and>
            listScreenshots toTimestamp scan q st =
              (case limitOffset (q_limit q) (q_offset q) ordered of
                 None \<Rightarrow> JsonError ''Failed to list screenshots'' 500
               | Some page \<Rightarrow> Listing (map summarize page) (q_limit q) (q_offset q)))
       \<and> (\<forall>rows l off. listScreenshots toTimestamp scan q st = Listing rows l off \<longrightarrow>
            (\<forall>r \<in> set rows. \<exists>s \<in> set (screenshots st).
                r = summarize s \<and> satisfiesFilters toTimestamp q st s) \<and>
            sorted_wrt (\<lambda>a b. m_uploadedAt b \<le> m_uploadedAt a) rows)
       \<and> ((case q_limit q of None \<Rightarrow> True | Some v \<Rightarrow> v < 0) \<and>
           (case q_offset q of None \<Rightarrow> True | Some v \<Rightarrow> v = 0) \<longrightarrow>
            (\<exists>rows. listScreenshots toTimestamp scan q st = Listing rows (q_limit q) (q_offset q) \<and>
               mset rows = mset (map summarize (selectedRows toTimestamp q st)) \<and>
               (\<forall>s \<in> set (screenshots st).
                   satisfiesFilters toTimestamp q st s \<longrightarrow> summarize s \<in> set rows)))"
proof -
  define selected where "selected = selectedRows toTimestamp q st"
  define ordered where "ordered = orderByUploadedDesc (scan selected)"
  have m: "mset ordered = mset selected"
    using perm by (simp add: ordered_def selected_def orderByUploadedDesc_mset)
  have srt: "sorted_wrt (\<lambda>a b. s_uploadedAt b \<le> s_uploadedAt a) ordered"
    by (simp add: ordered_def orderByUploadedDesc_sorted)
  have same_set: "set ordered = set selected"
    using m by (rule mset_eq_setD)
  have resp: "listScreenshots toTimestamp scan q st =
      (case limitOffset (q_limit q) (q_offset q) ordered of
         None \<Rightarrow> JsonError ''Failed to list screenshots'' 500
       | Some page \<Rightarrow> Listing (map summarize page) (q_limit q) (q_offset q))"
    by (simp add: listScreenshots_def ordered_def selected_def)
  have a: "\<forall>s. s \<in> set selected \<longleftrightarrow>
              s \<in> set (screenshots st) \<and> satisfiesFilters toTimestamp q st s"
    by (simp add: selected_def selectedRows_iff)
  have b: "\<not> truthy (q_category q) \<longrightarrow>
            selected = filter (satisfiesFilters toTimestamp q st) (screenshots st)"
    by (simp add: selected_def selectedRows_no_category)
  have c: "\<exists>ordered.
            mset ordered = mset selected \<and>
            sorted_wrt (\<lambda>a b. s_uploadedAt b \<le> s_uploadedAt a) ordered \<and>
            listScreenshots toTimestamp scan q st =
              (case limitOffset (q_limit q) (q_offset q) ordered of
                 None \<Rightarrow> JsonError ''Failed to list screenshots'' 500
               | Some page \<Rightarrow> Listing (map summarize page) (q_limit q) (q_offset q))"
    using m srt resp by blast
  have d: "(\<forall>r \<in> set rows. \<exists>s \<in> set (screenshots st).
                r = summarize s \<and> satisfiesFilters toTimestamp q st s) \<and>
            sorted_wrt (\<lambda>a b. m_uploadedAt b \<le> m_uploadedAt a) rows"
    if "listScreenshots toTimestamp scan q st = Listing rows l off" for rows l off
  proof -
    from that resp obtain page where
      page: "limitOffset (q_limit q) (q_offset q) ordered = Some page"
      and rows: "rows = map summarize page"
      by (auto split: option.splits)
    from limitOffset_subset [OF page] same_set a
    have "\<forall>s \<in> set page. s \<in> set (screenshots st) \<and> satisfiesFilters toTimestamp q st s"
      by blast
    then have sound: "\<forall>r \<in> set rows. \<exists>s \<in> set (screenshots st).
                r = summarize s \<and> satisfiesFilters toTimestamp q st s"
      unfolding rows by auto
    from limitOffset_sorted [OF page srt]
    have "sorted_wrt (\<lambda>a b. m_uploadedAt b \<le> m_uploadedAt a) rows"
      by (simp add: rows sorted_wrt_map summarize_def)
    with sound show ?thesis by blast
  qed
  have e: "\<exists>rows. listScreenshots toTimestamp scan q st = Listing rows (q_limit q) (q_offset q) \<and>
               mset rows = mset (map summarize selected) \<and>
               (\<forall>s \<in> set (screenshots st).
                   satisfiesFilters toTimestamp q st s \<longrightarrow> summarize s \<in> set rows)"
    if "case q_limit q of None \<Rightarrow> True | Some v \<Rightarrow> v < 0"
      and "case q_offset q of None \<Rightarrow> True | Some v \<Rightarrow> v = 0"
  proof -
    from limitOffset_unpaged [OF that, of ordered] resp
    have r: "listScreenshots toTimestamp scan q st =
        Listing (map summarize ordered) (q_limit q) (q_offset q)"
      by simp
    have ms: "mset (map summarize ordered) = mset (map summarize selected)"
      using m by simp
    have "summarize s \<in> set (map summarize ordered)"
      if "s \<in> set (screenshots st)" "satisfiesFilters toTimestamp q st s" for s
      using that a same_set by auto
    with r ms show ?thesis by blast
  qed
  from a b c d e show ?thesis unfolding selected_def by blast
qed

theorem listing_filters_and_order_witness:
  "mset (tableOrder (selectedRows toTimestamp0 query_dates store1)) =
     mset (selectedRows toTimestamp0 query_dates store1)
   \<and> shot ''s1'' ''k1'' 10 False 0.79 \<in> set (selectedRows toTimestamp0 query_dates store1)
   \<and> shot ''s3'' ''k3'' 30 False 0.95 \<in> set (selectedRows toTimestamp0 query_dates store1)
   \<and> shot ''s4'' ''k4'' 40 True 0.99 \<notin> set (selectedRows toTimestamp0 query_dates store1)
   \<and> listScreenshots toTimestamp0 tableOrder query_dates store1 =
       Listing [summarize (shot ''s3'' ''k3'' 30 False 0.95),
                summarize (shot ''s2'' ''k2'' 20 False 0.8),
                summarize (shot ''s1'' ''k1'' 10 False 0.79)] (Some (- 1)) (Some 0)
   \<and> mset [summarize (shot ''s3'' ''k3'' 30 False 0.95),
            summarize (shot ''s2'' ''k2'' 20 False 0.8),
            summarize (shot ''s1'' ''k1'' 10 False 0.79)] =
       mset (map summarize (selectedRows toTimestamp0 query_dates store1))
   \<and> listScreenshots toTimestamp0 tableOrder query_all store1 =
       Listing [summarize (shot ''s4'' ''k4'' 40 True 0.99)] (Some 50) (Some 0)
   \<and> (\<exists>s \<in> set (screenshots store1).
         summarize (shot ''s4'' ''k4'' 40 True 0.99) = summarize s \<and>
         satisfiesFilters toTimestamp0 query_all store1 s)
   \<and> sorted_wrt (\<lambda>a b. m_uploadedAt b \<le> m_uploadedAt a)
        [summarize (shot ''s3'' ''k3'' 30 False 0.95),
         summarize (shot ''s2'' ''k2'' 20 False 0.8),
         summarize (shot ''s1'' ''k1'' 10 False 0.79)]
   \<and> listScreenshots toTimestamp0 tableOrder query_bad_page store1 =
       JsonError ''Failed to list screenshots'' 500"
proof -
  have perm: "mset (tableOrder (selectedRows toTimestamp0 q store1)) =
     mset (selectedRows toTimestamp0 q store1)" for q
    by (simp add: tableOrder_def)
  note dates = listing_filters_and_order [where scan = tableOrder and toTimestamp = toTimestamp0
      and q = query_dates and st = store1, OF perm]
  note all = listing_filters_and_order [where scan = tableOrder and toTimestamp = toTimestamp0
      and q = query_all and st = store1, OF perm]
  note mem = dates [THEN conjunct1, rule_format]
  have stored: "shot ''s1'' ''k1'' 10 False 0.79 \<in> set (screenshots store1)"
    "shot ''s3'' ''k3'' 30 False 0.95 \<in> set (screenshots store1)"
    by (simp_all add: store1_def)
  have sat1: "satisfiesFilters toTimestamp0 query_dates store1 (shot ''s1'' ''k1'' 10 False 0.79)"
    by (simp add: satisfiesFilters_def query_dates_def truthy_def toTimestamp0_def shot_def)
  have sat3: "satisfiesFilters toTimestamp0 query_dates store1 (shot ''s3'' ''k3'' 30 False 0.95)"
    by (simp add: satisfiesFilters_def query_dates_def truthy_def toTimestamp0_def shot_def)
  have unsat4: "\<not> satisfiesFilters toTimestamp0 query_dates store1 (shot ''s4'' ''k4'' 40 True 0.99)"
    by (simp add: satisfiesFilters_def query_dates_def truthy_def toTimestamp0_def shot_def)
  from mem stored(1) sat1
  have a: "shot ''s1'' ''k1'' 10 False 0.79 \<in> set (selectedRows toTimestamp0 query_dates store1)"
    by blast
  from mem stored(2) sat3
  have b: "shot ''s3'' ''k3'' 30 False 0.95 \<in> set (selectedRows toTimestamp0 query_dates store1)"
    by blast
  from mem unsat4
  have c: "shot ''s4'' ''k4'' 40 True 0.99 \<notin> set (selectedRows toTimestamp0 query_dates store1)"
    by blast
  have l2: "listScreenshots toTimestamp0 tableOrder query_dates store1 =
       Listing [summarize (shot ''s3'' ''k3'' 30 False 0.95),
                summarize (shot ''s2'' ''k2'' 20 False 0.8),
                summarize (shot ''s1'' ''k1'' 10 False 0.79)] (Some (- 1)) (Some 0)"
    by (simp add: run_listing query_dates_def)
  have unpaged: "(case q_limit query_dates of None \<Rightarrow> True | Some v \<Rightarrow> v < 0) \<and>
           (case q_offset query_dates of None \<Rightarrow> True | Some v \<Rightarrow> v = 0)"
    by (simp add: query_dates_def)
  from dates [THEN conjunct2, THEN conjunct2, THEN conjunct2, THEN conjunct2, rule_format,
      OF unpaged]
  obtain rows where
    "listScreenshots toTimestamp0 tableOrder query_dates store1 =
       Listing rows (q_limit query_dates) (q_offset query_dates)"
    and "mset rows = mset (map summarize (selectedRows toTimestamp0 query_dates store1))"
    by blast
  with l2 have d: "mset [summarize (shot ''s3'' ''k3'' 30 False 0.95),
            summarize (shot ''s2'' ''k2'' 20 False 0.8),
            summarize (shot ''s1'' ''k1'' 10 False 0.79)] =
       mset (map summarize (selectedRows toTimestamp0 query_dates store1))"
    by simp
  have l1: "listScreenshots toTimestamp0 tableOrder query_all store1 =
       Listing [summarize (shot ''s4'' ''k4'' 40 True 0.99)] (Some 50) (Some 0)"
    by (simp add: run_listing query_all_def)
  note sound = all [THEN conjunct2, THEN conjunct2, THEN conjunct2, THEN conjunct1, rule_format,
      OF l1]
  from sound have e: "\<exists>s \<in> set (screenshots store1).
         summarize (shot ''s4'' ''k4'' 40 True 0.99) = summarize s \<and>
         satisfiesFilters toTimestamp0 query_all store1 s"
    by simp
  note sound2 = dates [THEN conjunct2, THEN conjunct2, THEN conjunct2, THEN conjunct1,
      rule_format, OF l2]
  from sound2 have f: "sorted_wrt (\<lambda>a b. m_uploadedAt b \<le> m_uploadedAt a)
        [summarize (shot ''s3'' ''k3'' 30 False 0.95),
         summarize (shot ''s2'' ''k2'' 20 False 0.8),
         summarize (shot ''s1'' ''k1'' 10 False 0.79)]"
    by (rule conjunct2)
  have g: "listScreenshots toTimestamp0 tableOrder query_bad_page store1 =
       JsonError ''Failed to list screenshots'' 500"
    by (simp add: run_listing query_bad_page_def)
  from perm a b c l2 d l1 e f g show ?thesis by (intro conjI)
qed

subsection \<open>Reanalysis\<close>

lemma reanalyze_run:
  assumes row: "find (\<lambda>s. s_id s = sid) (screenshots st) = Some row"
    and blob: "r2 st (s_r2Key row) = Some obj"
  shows "reanalyze generateObject e sid st =
     (let a = analyzeScreenshot generateObject (body obj) in
      (ReanalysisCompleted (isImportant a) (confidence a) (categories a),
       linkCategories e sid (confidence a) 0 (categories a)
         (deleteLinks sid
           (insertAnalysisResult sid ''gemini_vision_reanalysis'' a (resultNow e)
             (updateScreenshot sid (analyzedNow e) (isImportant a) (confidence a)
               (log EvClassify (log (EvR2Get (s_r2Key row)) (log (EvSelectScreenshot sid) st))))))))"
  using row blob
  by (simp add: reanalyze_def selectScreenshot_def r2_get_def log_def Let_def)

lemma reanalyze_once:
  fixes generateObject :: "blob \<Rightarrow> analysis option" and e :: env and obj :: r2_object
    and sid :: string and st :: "analysis store"
  assumes row: "find (\<lambda>s. s_id s = sid) (screenshots st) = Some row"
    and blob: "r2 st (s_r2Key row) = Some obj"
  defines "a \<equiv> analyzeScreenshot generateObject (body obj)"
    and "st' \<equiv> snd (reanalyze generateObject e sid st)"
  shows "fst (reanalyze generateObject e sid st) =
           ReanalysisCompleted (isImportant a) (confidence a) (categories a)"
    and "analysisResults st' = analysisResults st @
           [\<lparr> r_id = analysisSeq st + 1, r_screenshotId = sid,
              r_analysisType = ''gemini_vision_reanalysis'', r_resultData = a,
              r_createdAt = resultNow e \<rparr>]"
    and "filter (\<lambda>l. l_screenshotId l = sid) (screenshotCategories st') =
           linksOfJudgement sid a (categoriesT st')"
    and "filter (\<lambda>l. l_screenshotId l \<noteq> sid) (screenshotCategories st') =
           filter (\<lambda>l. l_screenshotId l \<noteq> sid) (screenshotCategories st)"
    and "r2 st' = r2 st"
    and "\<exists>row'. find (\<lambda>s. s_id s = sid) (screenshots st') = Some row' \<and>
                 s_r2Key row' = s_r2Key row"
proof -
  define st6 where "st6 =
     deleteLinks sid
       (insertAnalysisResult sid ''gemini_vision_reanalysis'' a (resultNow e)
         (updateScreenshot sid (analyzedNow e) (isImportant a) (confidence a)
           (log EvClassify (log (EvR2Get (s_r2Key row)) (log (EvSelectScreenshot sid) st)))))"
  have run: "reanalyze generateObject e sid st =
      (ReanalysisCompleted (isImportant a) (confidence a) (categories a),
       linkCategories e sid (confidence a) 0 (categories a) st6)"
    using reanalyze_run [OF row blob, of generateObject e]
    by (simp add: Let_def a_def st6_def)
  have st': "st' = linkCategories e sid (confidence a) 0 (categories a) st6"
    by (simp add: st'_def run)
  show "fst (reanalyze generateObject e sid st) =
           ReanalysisCompleted (isImportant a) (confidence a) (categories a)"
    by (simp add: run)
  show "analysisResults st' = analysisResults st @
           [\<lparr> r_id = analysisSeq st + 1, r_screenshotId = sid,
              r_analysisType = ''gemini_vision_reanalysis'', r_resultData = a,
              r_createdAt = resultNow e \<rparr>]"
    by (simp add: st' linkCategories_frame st6_def deleteLinks_def insertAnalysisResult_def
        updateScreenshot_def log_def)
  have links6: "screenshotCategories st6 =
      filter (\<lambda>l. l_screenshotId l \<noteq> sid) (screenshotCategories st)"
    by (simp add: st6_def deleteLinks_def insertAnalysisResult_def updateScreenshot_def log_def)
  have links': "screenshotCategories st' =
      filter (\<lambda>l. l_screenshotId l \<noteq> sid) (screenshotCategories st) @
      linksOfJudgement sid a (categoriesT st')"
    unfolding st' linksOfJudgement_def
    by (subst linkCategories_links) (simp add: links6)
  have own: "filter (\<lambda>l. l_screenshotId l = sid) (linksOfJudgement sid a cats) =
      linksOfJudgement sid a cats" for cats
    by (simp add: linksOfJudgement_def filter_map comp_def)
  have none: "filter (\<lambda>l. l_screenshotId l \<noteq> sid) (linksOfJudgement sid a cats) = []" for cats
    by (simp add: linksOfJudgement_def filter_map comp_def)
  show "filter (\<lambda>l. l_screenshotId l = sid) (screenshotCategories st') =
           linksOfJudgement sid a (categoriesT st')"
    by (subst links') (simp add: own)
  show "filter (\<lambda>l. l_screenshotId l \<noteq> sid) (screenshotCategories st') =
           filter (\<lambda>l. l_screenshotId l \<noteq> sid) (screenshotCategories st)"
    by (subst links') (simp add: none)
  show "r2 st' = r2 st"
    by (simp add: st' linkCategories_frame st6_def deleteLinks_def insertAnalysisResult_def
        updateScreenshot_def log_def)
  have "screenshots st' =
      map (\<lambda>s. if s_id s = sid
                then s\<lparr>s_analyzedAt := Some (analyzedNow e), s_isImportant := Some (isImportant a),
                       s_confidenceScore := Some (confidence a)\<rparr>
                else s) (screenshots st)"
    by (simp add: st' linkCategories_frame st6_def deleteLinks_def insertAnalysisResult_def
        updateScreenshot_def log_def)
  then have "find (\<lambda>s. s_id s = sid) (screenshots st') =
      Some (if s_id row = sid
            then row\<lparr>s_analyzedAt := Some (analyzedNow e), s_isImportant := Some (isImportant a),
                     s_confidenceScore := Some (confidence a)\<rparr>
            else row)"
    using row by (simp add: find_map_same_id)
  then show "\<exists>row'. find (\<lambda>s. s_id s = sid) (screenshots st') = Some row' \<and>
                 s_r2Key row' = s_r2Key row"
    by auto
qed

text \<open>
  The handler of \<^verbatim>\<open>src/index.ts\<close>. For an existing screenshot whose blob is present and
  every \<open>N \<ge> 1\<close>, \<open>N\<close> reanalyses in sequence all succeed and append exactly \<open>N\<close>
  Analysis Result rows after the earlier ones, which stay as they were; each new row is
  tagged \<^verbatim>\<open>gemini_vision_reanalysis\<close> and holds the judgement of its request. Afterwards
  the link rows of the screenshot are exactly those of the \<open>N\<close>th judgement.
\<close>

theorem reanalyze_times_history_and_links:
  fixes reqs :: "((blob \<Rightarrow> analysis option) \<times> env) list" and st :: "analysis store"
  assumes nonempty: "reqs \<noteq> []"
    and row: "find (\<lambda>s. s_id s = sid) (screenshots st) = Some row"
    and blob: "r2 st (s_r2Key row) = Some obj"
  shows "\<exists>news. analysisResults (snd (reanalyzeTimes reqs sid st)) = analysisResults st @ news
           \<and> length news = length reqs
           \<and> map r_resultData news = map (\<lambda>(g, e). analyzeScreenshot g (body obj)) reqs
           \<and> list_all (\<lambda>r. r_screenshotId r = sid \<and>
                             r_analysisType r = ''gemini_vision_reanalysis'') news
           \<and> filter (\<lambda>l. l_screenshotId l = sid)
                (screenshotCategories (snd (reanalyzeTimes reqs sid st))) =
               linksOfJudgement sid (analyzeScreenshot (fst (last reqs)) (body obj))
                 (categoriesT (snd (reanalyzeTimes reqs sid st)))
           \<and> list_all (\<lambda>resp. status resp = 200) (fst (reanalyzeTimes reqs sid st))"
  using nonempty row blob
proof (induction reqs arbitrary: st row rule: list_nonempty_induct)
  case (single x)
  obtain g e where x: "x = (g, e)" by (cases x)
  note once = reanalyze_once [OF single.prems, of g e]
  show ?case
    by (rule exI [of _ "[\<lparr> r_id = analysisSeq st + 1, r_screenshotId = sid,
              r_analysisType = ''gemini_vision_reanalysis'',
              r_resultData = analyzeScreenshot g (body obj),
              r_createdAt = resultNow e \<rparr>]"])
       (simp add: x split_beta once)
next
  case (cons x xs)
  obtain g e where x: "x = (g, e)" by (cases x)
  define st1 where "st1 = snd (reanalyze g e sid st)"
  note once = reanalyze_once [OF cons.prems, of g e, folded st1_def]
  from once(6) obtain row' where row': "find (\<lambda>s. s_id s = sid) (screenshots st1) = Some row'"
    and key: "s_r2Key row' = s_r2Key row" by blast
  have blob': "r2 st1 (s_r2Key row') = Some obj"
    using once(5) key cons.prems(2) by simp
  from cons.IH [OF row' blob'] obtain news where
    res: "analysisResults (snd (reanalyzeTimes xs sid st1)) = analysisResults st1 @ news"
    and len: "length news = length xs"
    and dat: "map r_resultData news = map (\<lambda>(g, e). analyzeScreenshot g (body obj)) xs"
    and tag: "list_all (\<lambda>r. r_screenshotId r = sid \<and>
                             r_analysisType r = ''gemini_vision_reanalysis'') news"
    and lnk: "filter (\<lambda>l. l_screenshotId l = sid)
                (screenshotCategories (snd (reanalyzeTimes xs sid st1))) =
               linksOfJudgement sid (analyzeScreenshot (fst (last xs)) (body obj))
                 (categoriesT (snd (reanalyzeTimes xs sid st1)))"
    and oks: "list_all (\<lambda>resp. status resp = 200) (fst (reanalyzeTimes xs sid st1))"
    by blast
  have run: "reanalyzeTimes (x # xs) sid st =
      (fst (reanalyze g e sid st) # fst (reanalyzeTimes xs sid st1),
       snd (reanalyzeTimes xs sid st1))"
    by (simp add: x st1_def split_beta)
  show ?case
    unfolding run fst_conv snd_conv
    by (rule exI [of _ "\<lparr> r_id = analysisSeq st + 1, r_screenshotId = sid,
              r_analysisType = ''gemini_vision_reanalysis'',
              r_resultData = analyzeScreenshot g (body obj),
              r_createdAt = resultNow e \<rparr> # news"])
       (simp add: res once(1,2) len dat tag lnk oks cons.hyps x)
qed

theorem reanalyze_times_history_and_links_witness:
  "length (analysisResults
      (snd (reanalyzeTimes [(classifier2, env0), (classifier_down, env0)] ''s2'' store1))) = 3
   \<and> map r_resultData (drop 1 (analysisResults
      (snd (reanalyzeTimes [(classifier2, env0), (classifier_down, env0)] ''s2'' store1)))) =
       [judgement2, fallback]
   \<and> map l_categoryId (filter (\<lambda>l. l_screenshotId l = ''s2'')
        (screenshotCategories
          (snd (reanalyzeTimes [(classifier2, env0), (classifier_down, env0)] ''s2'' store1)))) =
       [4]
   \<and> map c_name (categoriesT
        (snd (reanalyzeTimes [(classifier2, env0), (classifier_down, env0)] ''s2'' store1))) =
       [''Dev'', ''Temp'', ''Bugs'', ''uncategorized'']"
proof -
  define reqs where "reqs = [(classifier2, env0), (classifier_down, env0)]"
  define fin where "fin = snd (reanalyzeTimes reqs ''s2'' store1)"
  have ne: "reqs \<noteq> []" by (simp add: reqs_def)
  have row: "find (\<lambda>s. s_id s = ''s2'') (screenshots store1) = Some (shot ''s2'' ''k2'' 20 False 0.8)"
    by (simp add: store1_def shot_def)
  have blob: "r2 store1 (s_r2Key (shot ''s2'' ''k2'' 20 False 0.8)) = Some blob0"
    by (simp add: store1_def shot_def)
  have cats: "categoriesT fin =
      [\<lparr> c_id = 1, c_name = ''Dev'', c_description = None, c_createdAt = 5 \<rparr>,
       \<lparr> c_id = 2, c_name = ''Temp'', c_description = None, c_createdAt = 6 \<rparr>,
       \<lparr> c_id = 3, c_name = ''Bugs'', c_description = None, c_createdAt = 103 \<rparr>,
       \<lparr> c_id = 4, c_name = ''uncategorized'', c_description = None, c_createdAt = 103 \<rparr>]"
    by (simp add: fin_def reqs_def reanalyze_def selectScreenshot_def r2_get_def store1_def
        shot_def blob0_def run_upload deleteLinks_def)
  from reanalyze_times_history_and_links [OF ne row blob] obtain news where
    res: "analysisResults fin = analysisResults store1 @ news"
    and len: "length news = length reqs"
    and dat: "map r_resultData news = map (\<lambda>(g, e). analyzeScreenshot g (body blob0)) reqs"
    and lnk: "filter (\<lambda>l. l_screenshotId l = ''s2'') (screenshotCategories fin) =
               linksOfJudgement ''s2'' (analyzeScreenshot (fst (last reqs)) (body blob0))
                 (categoriesT fin)"
    unfolding fin_def by blast
  have a: "length (analysisResults fin) = 3"
    by (simp add: res len) (simp add: reqs_def store1_def)
  have b: "map r_resultData (drop 1 (analysisResults fin)) = [judgement2, fallback]"
    by (simp add: res dat store1_def reqs_def analyzeScreenshot_def classifier2_def
        classifier_down_def)
  have c: "map l_categoryId (filter (\<lambda>l. l_screenshotId l = ''s2'') (screenshotCategories fin)) = [4]"
    by (simp add: lnk cats)
       (simp add: linksOfJudgement_def reqs_def analyzeScreenshot_def classifier_down_def fallback_def)
  have d: "map c_name (categoriesT fin) = [''Dev'', ''Temp'', ''Bugs'', ''uncategorized'']"
    by (simp add: cats)
  from a b c d show ?thesis unfolding fin_def reqs_def by (intro conjI)
qed

text \<open>
  Claim C3. The claim says that after the \<open>N\<close>th reanalysis the link rows of the
  screenshot are exactly the categories of the \<open>N\<close>th judgement. The handler of
  \<^verbatim>\<open>src/index.ts\<close> does this (theorem \<open>reanalyze_times_history_and_links\<close> above). The
  handler of the single-label variant does not: for every existing screenshot whose blob
  is present, it appends the Analysis Result row and deletes the prior links, then fails
  on the missing property \<^verbatim>\<open>categories\<close> before any link is inserted, so that the
  screenshot is left without link rows and the response has status 500.
\<close>

theorem reanalyze_single_drops_links:
  fixes generateObject :: "blob \<Rightarrow> analysis_single option" and st :: "analysis_single store"
  assumes row: "find (\<lambda>s. s_id s = sid) (screenshots st) = Some row"
    and blob: "r2 st (s_r2Key row) = Some obj"
  shows "fst (reanalyze_single generateObject e sid st) = JsonError ''Reanalysis failed'' 500
       \<and> filter (\<lambda>l. l_screenshotId l = sid)
            (screenshotCategories (snd (reanalyze_single generateObject e sid st))) = []
       \<and> filter (\<lambda>l. l_screenshotId l \<noteq> sid)
            (screenshotCategories (snd (reanalyze_single generateObject e sid st))) =
           filter (\<lambda>l. l_screenshotId l \<noteq> sid) (screenshotCategories st)
       \<and> analysisResults (snd (reanalyze_single generateObject e sid st)) =
           analysisResults st @
           [\<lparr> r_id = analysisSeq st + 1, r_screenshotId = sid,
              r_analysisType = ''gemini_vision_reanalysis'',
              r_resultData = analyzeScreenshot_single generateObject (body obj),
              r_createdAt = resultNow e \<rparr>]
       \<and> categoriesT (snd (reanalyze_single generateObject e sid st)) = categoriesT st"
  using row blob
  by (simp add: reanalyze_single_def selectScreenshot_def r2_get_def log_def Let_def
      deleteLinks_def insertAnalysisResult_def updateScreenshot_def)

theorem reanalyze_single_drops_links_witness:
  "filter (\<lambda>l. l_screenshotId l = ''s1'') (screenshotCategories store_single) =
     [\<lparr> l_screenshotId = ''s1'', l_categoryId = 1, l_confidence = Some 0.9 \<rparr>]
   \<and> status (fst (reanalyze_single classifier1 env0 ''s1'' store_single)) = 500
   \<and> filter (\<lambda>l. l_screenshotId l = ''s1'')
        (screenshotCategories (snd (reanalyze_single classifier1 env0 ''s1'' store_single))) = []
   \<and> map (category \<circ> r_resultData)
        (analysisResults (snd (reanalyze_single classifier1 env0 ''s1'' store_single))) =
       [''uncategorized'', ''receipts'']"
proof -
  have row: "find (\<lambda>s. s_id s = ''s1'') (screenshots store_single) =
      Some (shot ''s1'' ''k1'' 10 False 0.9)"
    by (simp add: store_single_def shot_def)
  have blob: "r2 store_single (s_r2Key (shot ''s1'' ''k1'' 10 False 0.9)) = Some blob0"
    by (simp add: store_single_def shot_def)
  note th = reanalyze_single_drops_links [OF row blob, of classifier1 env0]
  have a: "filter (\<lambda>l. l_screenshotId l = ''s1'') (screenshotCategories store_single) =
     [\<lparr> l_screenshotId = ''s1'', l_categoryId = 1, l_confidence = Some 0.9 \<rparr>]"
    by (simp add: store_single_def)
  from th have b: "status (fst (reanalyze_single classifier1 env0 ''s1'' store_single)) = 500"
    by simp
  from th have c: "filter (\<lambda>l. l_screenshotId l = ''s1'')
        (screenshotCategories (snd (reanalyze_single classifier1 env0 ''s1'' store_single))) = []"
    by blast
  from th have d: "map (category \<circ> r_resultData)
        (analysisResults (snd (reanalyze_single classifier1 env0 ''s1'' store_single))) =
       [''uncategorized'', ''receipts'']"
    by (simp add: store_single_def fallback_single_def analyzeScreenshot_single_def
        classifier1_def judgement1_def)
  from a b c d show ?thesis by (intro conjI)
qed

end
